theory Spec2Isabelle
  imports Complex_Main
begin

section \<open>The trajectory planner of base\_local\_planner\<close>

text \<open>
  A shallow embedding of \<^verbatim>\<open>src/base_local_planner/src/trajectory_planner.cpp\<close>.

  Conventions of the embedding.
  \<^item> A C++ \<^verbatim>\<open>double\<close> is a \<^typ>\<open>real\<close>: rounding, overflow, infinities and NaN are
    outside the model. The one place where the source divides by zero on a legal
    configuration and then branches on the quotient (the step \<^verbatim>\<open>dvtheta\<close> with a single
    theta sample) is written out by cases.
  \<^item> A C++ \<^verbatim>\<open>int\<close> is an \<^typ>\<open>int\<close>; the sample counts are far from the overflow range.
  \<^item> The members of the class keep their names without the trailing underscore, which
    Isabelle does not accept (\<^verbatim>\<open>sim_time_\<close> is \<open>sim_time\<close>, \<^verbatim>\<open>cost_\<close> is \<open>cost\<close>).
  \<^item> The collaborators that live outside this file (the costmap, the world model, the two
    map grids, the \<^verbatim>\<open>angles\<close> library) are fields of the planner that hold functions.
  \<^item> Reading \<^verbatim>\<open>global_plan_[global_plan_.size() - 1]\<close> on an empty plan is undefined
    behaviour in C++; the model returns \<open>None\<close> there.
  \<^item> The diagnostic members \<^verbatim>\<open>occ_dist_\<close>, \<^verbatim>\<open>occ_cost_\<close>, \<^verbatim>\<open>path_dist_\<close>,
    \<^verbatim>\<open>path_cost_\<close>, \<^verbatim>\<open>head_diff_\<close>, \<^verbatim>\<open>head_cost_\<close>, \<^verbatim>\<open>goal_dist_\<close>, \<^verbatim>\<open>goal_cost_\<close>,
    \<^verbatim>\<open>angle1_\<close> and \<^verbatim>\<open>angle2_\<close> are only written in this file (\<^verbatim>\<open>goal_cost_\<close> is read
    back in the statement after its assignment); they are not part of the state, and the
    logging calls are dropped.
\<close>

subsection \<open>Data\<close>

text \<open>The class \<^verbatim>\<open>Trajectory\<close>, with the fields this file reads and writes.\<close>

record Trajectory =
  xv :: real
  yv :: real
  thetav :: real
  cost :: real
  goal_cost_traj :: real
  path_dist_traj :: real
  points :: "(real \<times> real \<times> real) list"

text \<open>\<^verbatim>\<open>MapGrid\<close>: the cell distances, the obstacle sentinel and the goal anchor.\<close>

record MapGrid =
  target_dist :: "nat \<Rightarrow> nat \<Rightarrow> real"
  within_robot :: "nat \<Rightarrow> nat \<Rightarrow> bool"
  obstacleCosts :: real
  unreachableCellCosts :: real
  goal_x :: real
  goal_y :: real

text \<open>\<^verbatim>\<open>costmap_2d::Costmap2D\<close>: \<open>worldToMap\<close> is \<open>None\<close> when the point is off the map.\<close>

record Costmap2D =
  worldToMap :: "real \<Rightarrow> real \<Rightarrow> (nat \<times> nat) option"
  getCost :: "nat \<Rightarrow> nat \<Rightarrow> nat"
  getResolution :: real

text \<open>A pose of the global plan; \<open>yaw\<close> is what \<^verbatim>\<open>getEulerYPR\<close> extracts from its quaternion.\<close>

record PoseStamped =
  position_x :: real
  position_y :: real
  yaw :: real

record TrajectoryPlanner =
  path_map :: MapGrid
  goal_map :: MapGrid
  costmap :: Costmap2D
  world_model :: "real \<Rightarrow> real \<Rightarrow> real \<Rightarrow> real"
  shortest_angular_distance :: "real \<Rightarrow> real \<Rightarrow> real"
  global_plan :: "PoseStamped list"
  final_goal_x :: real
  final_goal_y :: real
  final_goal_position_valid :: bool
  sim_time :: real
  sim_granularity :: real
  angular_sim_granularity :: real
  vx_samples :: int
  vy_samples :: int
  vtheta_samples :: int
  pdist_scale :: real
  gdist_scale :: real
  occdist_scale :: real
  hdiff_scale :: real
  path_distance_max :: real
  acc_lim_x :: real
  acc_lim_y :: real
  acc_lim_theta :: real
  prev_x :: real
  prev_y :: real
  escape_x :: real
  escape_y :: real
  escape_theta :: real
  heading_lookahead :: real
  oscillation_reset_dist :: real
  escape_reset_dist :: real
  escape_reset_theta :: real
  holonomic_robot :: bool
  max_vel_x :: real
  min_vel_x :: real
  max_vel_y :: real
  min_vel_y :: real
  max_vel_th :: real
  min_vel_th :: real
  min_in_place_vel_th :: real
  backup_vel :: real
  dwa :: bool
  heading_scoring :: bool
  heading_scoring_timestep :: real
  meter_scoring :: bool
  simple_attractor :: bool
  y_vels :: "real list"
  stop_time_buffer :: real
  sim_period :: real
  stuck_left :: bool
  stuck_right :: bool
  stuck_left_strafe :: bool
  stuck_right_strafe :: bool
  rotating_left :: bool
  rotating_right :: bool
  strafe_left :: bool
  strafe_right :: bool
  escaping :: bool
  traj_one :: Trajectory
  traj_two :: Trajectory

subsection \<open>Arithmetic helpers\<close>

text \<open>\<^verbatim>\<open>hypot\<close> of \<^verbatim>\<open>math.h\<close>.\<close>

definition hypot :: "real \<Rightarrow> real \<Rightarrow> real" where
  "hypot a b = sqrt (a * a + b * b)"

text \<open>The conversion \<^verbatim>\<open>int(d)\<close> of a \<^verbatim>\<open>double\<close>: truncation toward zero.\<close>

definition to_int :: "real \<Rightarrow> int" where
  "to_int r = (if 0 \<le> r then \<lfloor>r\<rfloor> else \<lceil>r\<rceil>)"

text \<open>
  Modelled from the spec: the inline kinematic helpers \<^verbatim>\<open>computeNewVelocity\<close>,
  \<^verbatim>\<open>computeNewXPosition\<close>, \<^verbatim>\<open>computeNewYPosition\<close> and
  \<^verbatim>\<open>computeNewThetaPosition\<close> are declared in the header, which is not part of the
  sources at hand. The spec: each axis's velocity changes by at most \<open>accel * dt\<close> per
  step toward the sample, and the pose moves by
  \<open>x' = x + (vx cos \<theta> - vy sin \<theta>) dt\<close>, \<open>y' = y + (vx sin \<theta> + vy cos \<theta>) dt\<close>,
  \<open>\<theta>' = \<theta> + v\<theta> dt\<close>.
\<close>

definition computeNewVelocity :: "real \<Rightarrow> real \<Rightarrow> real \<Rightarrow> real \<Rightarrow> real" where
  "computeNewVelocity vg vi a_max dt =
     (if 0 \<le> vg - vi then min vg (vi + a_max * dt) else max vg (vi - a_max * dt))"

definition computeNewXPosition :: "real \<Rightarrow> real \<Rightarrow> real \<Rightarrow> real \<Rightarrow> real \<Rightarrow> real" where
  "computeNewXPosition xi vx vy theta dt = xi + (vx * cos theta - vy * sin theta) * dt"

definition computeNewYPosition :: "real \<Rightarrow> real \<Rightarrow> real \<Rightarrow> real \<Rightarrow> real \<Rightarrow> real" where
  "computeNewYPosition yi vx vy theta dt = yi + (vx * sin theta + vy * cos theta) * dt"

definition computeNewThetaPosition :: "real \<Rightarrow> real \<Rightarrow> real \<Rightarrow> real" where
  "computeNewThetaPosition thetai vth dt = thetai + vth * dt"

subsection \<open>footprintCost, AngleDifference, headingDiff\<close>

definition footprintCost :: "TrajectoryPlanner \<Rightarrow> real \<Rightarrow> real \<Rightarrow> real \<Rightarrow> real" where
  "footprintCost p x_i y_i theta_i = world_model p x_i y_i theta_i"

definition AngleDifference :: "TrajectoryPlanner \<Rightarrow> real \<Rightarrow> real \<Rightarrow> real" where
  "AngleDifference p angle1 angle2 = \<bar>shortest_angular_distance p angle1 angle2\<bar>"

text \<open>
  One pass of the backward loop of \<^verbatim>\<open>headingDiff\<close> at index \<open>i\<close>. The state is
  \<^verbatim>\<open>(dist_to_goal, dist_to_goal_v, dist_to_path_min, i_curr_loc)\<close>.
\<close>

definition headingDiff_pass ::
  "PoseStamped list \<Rightarrow> real \<Rightarrow> real \<Rightarrow> nat \<Rightarrow> real \<times> real list \<times> real \<times> nat
     \<Rightarrow> real \<times> real list \<times> real \<times> nat" where
  "headingDiff_pass plan x y i st =
     (case st of (dist_to_goal, dist_to_goal_v, dist_to_path_min, i_curr_loc) \<Rightarrow>
        let dist_to_goal' = dist_to_goal
              + hypot (position_x (plan ! i) - position_x (plan ! (i + 1)))
                      (position_y (plan ! i) - position_y (plan ! (i + 1)));
            dist_to_goal_v' = dist_to_goal_v[i := dist_to_goal'];
            dist_to_path = hypot (position_x (plan ! i) - x) (position_y (plan ! i) - y)
        in if dist_to_path < dist_to_path_min
           then (dist_to_goal', dist_to_goal_v', dist_to_path, i)
           else (dist_to_goal', dist_to_goal_v', dist_to_path_min, i_curr_loc))"

text \<open>
  \<^verbatim>\<open>headingDiff\<close> returns the heading difference and writes the goal and path distance
  through its two reference parameters: the model returns the triple
  \<open>(heading difference, goal_dist_traj, path_dist_traj)\<close>. The loop runs over
  \<open>i = size - 2, \<dots>, 0\<close>. On an empty plan the source writes \<^verbatim>\<open>dist_to_goal_v[size - 1]\<close>
  out of range.
\<close>

definition headingDiff ::
  "TrajectoryPlanner \<Rightarrow> real \<Rightarrow> real \<Rightarrow> real \<Rightarrow> (real \<times> real \<times> real) option" where
  "headingDiff p x y heading =
     (let plan = global_plan p; n = length plan in
      if n = 0 then None
      else
        (case fold (headingDiff_pass plan x y) (rev [0..<n - 1]) (0, replicate n 0, 1000, 0) of
           (dist_to_goal, dist_to_goal_v, dist_to_path_min, i_curr_loc) \<Rightarrow>
             let index_plan = min (i_curr_loc + 1) (n - 1);
                 yaw_ref = yaw (plan ! index_plan);
                 g = dist_to_goal_v ! index_plan + real (n - 1 - index_plan) / real n;
                 goal_dist_traj =
                   (if g = 0
                    then hypot (position_x (plan ! (n - 1)) - x) (position_y (plan ! (n - 1)) - y)
                    else g)
             in Some (\<bar>AngleDifference p heading yaw_ref\<bar>, goal_dist_traj, dist_to_path_min)))"

subsection \<open>generateTrajectory\<close>

text \<open>The local variables of the simulation loop, and the trajectory being filled.\<close>

record sim =
  x_i :: real
  y_i :: real
  theta_i :: real
  vx_i :: real
  vy_i :: real
  vtheta_i :: real
  path_dist :: real
  goal_dist :: real
  occ_cost :: real
  heading_diff :: real
  time :: real
  traj :: Trajectory

text \<open>
  What a piece of the loop body does next: it leaves \<^verbatim>\<open>generateTrajectory\<close> with the
  trajectory as it stands (\<^verbatim>\<open>return\<close>), it goes on, or it has read the empty plan.
\<close>

datatype 'a flow = Return Trajectory | Continue 'a | UndefinedBehaviour

text \<open>The number of simulation steps.\<close>

definition num_steps_of :: "TrajectoryPlanner \<Rightarrow> real \<Rightarrow> real \<Rightarrow> real \<Rightarrow> int" where
  "num_steps_of p vx_samp vy_samp vtheta_samp =
     (let vmag = hypot vx_samp vy_samp;
          num_steps =
            (if \<not> heading_scoring p
             then to_int (max ((vmag * sim_time p) / sim_granularity p)
                              (\<bar>vtheta_samp\<bar> / angular_sim_granularity p) + 0.5)
             else to_int (sim_time p / sim_granularity p + 0.5))
      in if num_steps = 0 then 1 else num_steps)"

text \<open>
  The block under \<^verbatim>\<open>if (update_path_and_goal_distances)\<close> after the distances have been
  read: the test against \<^verbatim>\<open>impossible_cost\<close>, the path-distance cap and the heading
  dead band. The statement \<^verbatim>\<open>traj.path_dist_traj_ = path_dist_internal\<close> is the body of
  \<^verbatim>\<open>if (meter_scoring_)\<close>, whose own statement is commented out.
\<close>

definition update_distances :: "TrajectoryPlanner \<Rightarrow> real \<Rightarrow> sim \<Rightarrow> sim flow" where
  "update_distances p impossible_cost s =
     (if impossible_cost \<le> goal_dist s \<or> impossible_cost \<le> path_dist s
      then Return ((traj s)\<lparr>cost := - 2\<rparr>)
      else
        let path_dist_internal = path_dist s;
            s1 = (if meter_scoring p
                  then s\<lparr>traj := (traj s)\<lparr>path_dist_traj := path_dist_internal\<rparr>\<rparr> else s);
            s2 = (if 0 < path_distance_max p \<and> path_dist_internal \<le> path_distance_max p
                  then s1\<lparr>path_dist := 0\<rparr> else s1);
            s3 = (if \<bar>heading_diff s2\<bar> < 0.2 then s2\<lparr>heading_diff := 0\<rparr> else s2)
        in Continue s3)"

text \<open>The scoring part of the loop body, from \<^verbatim>\<open>if (simple_attractor_)\<close> on.\<close>

definition score_point ::
  "TrajectoryPlanner \<Rightarrow> real \<Rightarrow> int \<Rightarrow> int \<Rightarrow> nat \<Rightarrow> nat \<Rightarrow> sim \<Rightarrow> sim flow" where
  "score_point p impossible_cost num_steps i cell_x cell_y s =
     (if simple_attractor p then
        (case global_plan p of
           [] \<Rightarrow> UndefinedBehaviour
         | _ # _ \<Rightarrow>
             let g = last (global_plan p) in
             Continue (s\<lparr>goal_dist :=
               (x_i s - position_x g) * (x_i s - position_x g)
               + (y_i s - position_y g) * (y_i s - position_y g)\<rparr>))
      else if i = num_steps - 1 \<and> heading_scoring p then
        (case headingDiff p (x_i s) (y_i s) (theta_i s) of
           None \<Rightarrow> UndefinedBehaviour
         | Some (h, goal_dist_traj, path_dist_traj') \<Rightarrow>
             update_distances p impossible_cost
               (s\<lparr>heading_diff := h, goal_dist := goal_dist_traj, path_dist := path_dist_traj'\<rparr>))
      else if \<not> heading_scoring p then
        update_distances p impossible_cost
          (s\<lparr>path_dist := target_dist (path_map p) cell_x cell_y,
             goal_dist := target_dist (goal_map p) cell_x cell_y\<rparr>)
      else Continue s)"

text \<open>The end of the loop body: record the point, then integrate velocities and pose.\<close>

definition advance ::
  "real \<Rightarrow> real \<Rightarrow> real \<Rightarrow> real \<Rightarrow> real \<Rightarrow> real \<Rightarrow> real \<Rightarrow> sim \<Rightarrow> sim" where
  "advance vx_samp vy_samp vtheta_samp acc_x acc_y acc_theta dt s =
     (let t1 = (traj s)\<lparr>points := points (traj s) @ [(x_i s, y_i s, theta_i s)]\<rparr>;
          vx' = computeNewVelocity vx_samp (vx_i s) acc_x dt;
          vy' = computeNewVelocity vy_samp (vy_i s) acc_y dt;
          vtheta' = computeNewVelocity vtheta_samp (vtheta_i s) acc_theta dt;
          x' = computeNewXPosition (x_i s) vx' vy' (theta_i s) dt;
          y' = computeNewYPosition (y_i s) vx' vy' (theta_i s) dt;
          theta' = computeNewThetaPosition (theta_i s) vtheta' dt
      in s\<lparr>traj := t1, vx_i := vx', vy_i := vy', vtheta_i := vtheta',
            x_i := x', y_i := y', theta_i := theta', time := time s + dt\<rparr>)"

text \<open>One pass of the \<^verbatim>\<open>for\<close> loop, at index \<open>i\<close>.\<close>

definition sim_step ::
  "TrajectoryPlanner \<Rightarrow> real \<Rightarrow> real \<Rightarrow> real \<Rightarrow> real \<Rightarrow> real \<Rightarrow> real \<Rightarrow> real \<Rightarrow> int \<Rightarrow> real
     \<Rightarrow> int \<Rightarrow> sim \<Rightarrow> sim flow" where
  "sim_step p vx_samp vy_samp vtheta_samp acc_x acc_y acc_theta impossible_cost num_steps dt i s =
     (case worldToMap (costmap p) (x_i s) (y_i s) of
        None \<Rightarrow> Return ((traj s)\<lparr>cost := - 4\<rparr>)
      | Some (cell_x, cell_y) \<Rightarrow>
          let footprint_cost = footprintCost p (x_i s) (y_i s) (theta_i s) in
          if footprint_cost < 0 then Return ((traj s)\<lparr>cost := - 5\<rparr>)
          else
            let s1 = s\<lparr>occ_cost := max (max (occ_cost s) footprint_cost)
                                       (real (getCost (costmap p) cell_x cell_y))\<rparr>
            in (case score_point p impossible_cost num_steps i cell_x cell_y s1 of
                  Return t \<Rightarrow> Return t
                | UndefinedBehaviour \<Rightarrow> UndefinedBehaviour
                | Continue s2 \<Rightarrow>
                    Continue (advance vx_samp vy_samp vtheta_samp acc_x acc_y acc_theta dt s2)))"

text \<open>
  The loop \<^verbatim>\<open>for (int i = 0; i < num_steps; ++i)\<close>: \<open>n\<close> passes are left and the index
  is \<open>i\<close>. It is started with \<open>n = nat num_steps\<close> and \<open>i = 0\<close>.
\<close>

fun sim_loop :: "(int \<Rightarrow> sim \<Rightarrow> sim flow) \<Rightarrow> nat \<Rightarrow> int \<Rightarrow> sim \<Rightarrow> sim flow" where
  "sim_loop body 0 i s = Continue s"
| "sim_loop body (Suc n) i s =
     (case body i s of
        Return t \<Rightarrow> Return t
      | UndefinedBehaviour \<Rightarrow> UndefinedBehaviour
      | Continue s' \<Rightarrow> sim_loop body n (i + 1) s')"

text \<open>The state in which the loop is entered.\<close>

definition sim_init ::
  "real \<Rightarrow> real \<Rightarrow> real \<Rightarrow> real \<Rightarrow> real \<Rightarrow> real \<Rightarrow> real \<Rightarrow> real \<Rightarrow> real \<Rightarrow> Trajectory \<Rightarrow> sim" where
  "sim_init x y theta vx vy vtheta vx_samp vy_samp vtheta_samp t =
     \<lparr>x_i = x, y_i = y, theta_i = theta, vx_i = vx, vy_i = vy, vtheta_i = vtheta,
      path_dist = 0, goal_dist = 0, occ_cost = 0, heading_diff = 0, time = 0,
      traj = t\<lparr>path_dist_traj := - 2, points := [], xv := vx_samp, yv := vy_samp,
               thetav := vtheta_samp, cost := - 3\<rparr>\<rparr>"

text \<open>The cost after the loop.\<close>

definition final_cost :: "TrajectoryPlanner \<Rightarrow> sim \<Rightarrow> real" where
  "final_cost p s =
     (if \<not> heading_scoring p
      then pdist_scale p * path_dist s + goal_dist s * gdist_scale p + occdist_scale p * occ_cost s
      else occdist_scale p * occ_cost s + pdist_scale p * path_dist s
           + heading_diff s * hdiff_scale p + goal_dist s * gdist_scale p)"

text \<open>
  \<^verbatim>\<open>generateTrajectory\<close> fills the trajectory passed by reference; the model returns it.
\<close>

definition generateTrajectory ::
  "TrajectoryPlanner \<Rightarrow> real \<Rightarrow> real \<Rightarrow> real \<Rightarrow> real \<Rightarrow> real \<Rightarrow> real \<Rightarrow> real \<Rightarrow> real \<Rightarrow> real
     \<Rightarrow> real \<Rightarrow> real \<Rightarrow> real \<Rightarrow> real \<Rightarrow> Trajectory \<Rightarrow> Trajectory option" where
  "generateTrajectory p x y theta vx vy vtheta vx_samp vy_samp vtheta_samp
       acc_x acc_y acc_theta impossible_cost t =
     (let num_steps = num_steps_of p vx_samp vy_samp vtheta_samp;
          dt = sim_time p / real_of_int num_steps
      in case sim_loop (sim_step p vx_samp vy_samp vtheta_samp acc_x acc_y acc_theta
                          impossible_cost num_steps dt)
                (nat num_steps) 0
                (sim_init x y theta vx vy vtheta vx_samp vy_samp vtheta_samp t) of
           Return t' \<Rightarrow> Some t'
         | UndefinedBehaviour \<Rightarrow> None
         | Continue s \<Rightarrow>
             Some ((traj s)\<lparr>cost := final_cost p s, goal_cost_traj := goal_dist s * gdist_scale p\<rparr>))"

subsection \<open>scoreTrajectory and checkTrajectory\<close>

text \<open>
  Both start from a default-constructed \<^verbatim>\<open>Trajectory t\<close>; the constructor is not in
  this file, so the fresh value is a parameter.
\<close>

definition scoreTrajectory ::
  "TrajectoryPlanner \<Rightarrow> Trajectory \<Rightarrow> real \<Rightarrow> real \<Rightarrow> real \<Rightarrow> real \<Rightarrow> real \<Rightarrow> real
     \<Rightarrow> real \<Rightarrow> real \<Rightarrow> real \<Rightarrow> real option" where
  "scoreTrajectory p fresh x y theta vx vy vtheta vx_samp vy_samp vtheta_samp =
     (let impossible_cost = obstacleCosts (path_map p) in
      case generateTrajectory p x y theta vx vy vtheta vx_samp vy_samp vtheta_samp
             (acc_lim_x p) (acc_lim_y p) (acc_lim_theta p) impossible_cost fresh of
        None \<Rightarrow> None
      | Some t \<Rightarrow> Some (cost t))"

definition checkTrajectory ::
  "TrajectoryPlanner \<Rightarrow> Trajectory \<Rightarrow> real \<Rightarrow> real \<Rightarrow> real \<Rightarrow> real \<Rightarrow> real \<Rightarrow> real
     \<Rightarrow> real \<Rightarrow> real \<Rightarrow> real \<Rightarrow> bool option" where
  "checkTrajectory p fresh x y theta vx vy vtheta vx_samp vy_samp vtheta_samp =
     (case scoreTrajectory p fresh x y theta vx vy vtheta vx_samp vy_samp vtheta_samp of
        None \<Rightarrow> None
      | Some c \<Rightarrow> if 0 \<le> c then Some True else Some False)"

subsection \<open>Agreement of two runs up to the trajectory passed in\<close>

text \<open>
  Two trajectories agree when they differ at most in \<open>goal_cost_traj\<close>, the one field
  that \<^verbatim>\<open>generateTrajectory\<close> leaves as it found it when it returns early.
\<close>

definition traj_agree :: "Trajectory \<Rightarrow> Trajectory \<Rightarrow> bool" where
  "traj_agree a b =
     (xv a = xv b \<and> yv a = yv b \<and> thetav a = thetav b \<and> cost a = cost b
      \<and> path_dist_traj a = path_dist_traj b \<and> points a = points b)"

definition sim_agree :: "sim \<Rightarrow> sim \<Rightarrow> bool" where
  "sim_agree s s' = (s' = s\<lparr>traj := traj s'\<rparr> \<and> traj_agree (traj s) (traj s'))"

definition flow_agree :: "sim flow \<Rightarrow> sim flow \<Rightarrow> bool" where
  "flow_agree f g =
     (case f of
        Return a \<Rightarrow> (case g of Return b \<Rightarrow> traj_agree a b | _ \<Rightarrow> False)
      | Continue s \<Rightarrow> (case g of Continue s' \<Rightarrow> sim_agree s s' | _ \<Rightarrow> False)
      | UndefinedBehaviour \<Rightarrow> (case g of UndefinedBehaviour \<Rightarrow> True | _ \<Rightarrow> False))"

subsection \<open>createTrajectories: the velocity limits\<close>

text \<open>
  The six local limits of \<^verbatim>\<open>createTrajectories\<close>. The locals \<^verbatim>\<open>max_vel_x\<close>, \<^verbatim>\<open>min_vel_x\<close>,
  \<^verbatim>\<open>max_vel_y\<close> and \<^verbatim>\<open>min_vel_y\<close> shadow the members of nearly the same name, so the
  locals carry the prefix \<open>l_\<close> here.
\<close>

record limits =
  l_max_vel_x :: real
  l_min_vel_x :: real
  l_max_vel_y :: real
  l_min_vel_y :: real
  l_max_vel_theta :: real
  l_min_vel_theta :: real

text \<open>
  Lines 647 to 677. The source declares \<^verbatim>\<open>min_vel_x\<close> and \<^verbatim>\<open>min_vel_y\<close> without a value and
  assigns them only when the final goal position is valid; \<open>junk_x\<close> and \<open>junk_y\<close> stand
  for what the two locals hold otherwise. The theta limits are assigned in both branches
  of \<^verbatim>\<open>if (dwa_)\<close>, so their initial value is never read.
\<close>

definition velocity_limits ::
  "TrajectoryPlanner \<Rightarrow> real \<Rightarrow> real \<Rightarrow> real \<Rightarrow> real \<Rightarrow> real \<Rightarrow> real \<Rightarrow> real \<Rightarrow> real
     \<Rightarrow> real \<Rightarrow> real \<Rightarrow> limits" where
  "velocity_limits p junk_x junk_y x y vx vy vtheta acc_x acc_y acc_theta =
     (let l0 = \<lparr>l_max_vel_x = max_vel_x p, l_min_vel_x = junk_x,
                l_max_vel_y = max_vel_y p, l_min_vel_y = junk_y,
                l_max_vel_theta = 0, l_min_vel_theta = 0\<rparr>;
          l1 = (if final_goal_position_valid p then
                  let final_goal_dist = hypot (final_goal_x p - x) (final_goal_y p - y);
                      mx = min (l_max_vel_x l0) (final_goal_dist / sim_time p);
                      my = min (l_max_vel_y l0) (final_goal_dist / sim_time p)
                  in l0\<lparr>l_max_vel_x := mx, l_min_vel_x := min (min_vel_x p) mx,
                         l_max_vel_y := my, l_min_vel_y := - my\<rparr>
                else l0)
      in if dwa p then
           l1\<lparr>l_max_vel_x := max (min (l_max_vel_x l1) (vx + acc_x * sim_period p)) (min_vel_x p),
               l_min_vel_x := max (l_min_vel_x l1) (vx - acc_x * sim_period p),
               l_max_vel_y := min (l_max_vel_y l1) (vx + acc_y * sim_period p),
               l_min_vel_y := max (l_min_vel_y l1) (vx - acc_y * sim_period p),
               l_max_vel_theta := min (max_vel_th p) (vtheta + acc_theta * sim_period p),
               l_min_vel_theta := max (min_vel_th p) (vtheta - acc_theta * sim_period p)\<rparr>
         else
           l1\<lparr>l_max_vel_x := max (min (l_max_vel_x l1) (vx + acc_x * sim_time p)) (min_vel_x p),
               l_max_vel_theta := min (max_vel_th p) (vtheta + acc_theta * sim_time p),
               l_min_vel_theta := max (min_vel_th p) (vtheta - acc_theta * sim_time p)\<rparr>)"

subsection \<open>createTrajectories: the two buffers and the two pointers\<close>

text \<open>
  \<^verbatim>\<open>best_traj\<close> and \<^verbatim>\<open>comp_traj\<close> point into the members \<^verbatim>\<open>traj_one\<close> and \<^verbatim>\<open>traj_two\<close>;
  \<open>which\<close> is the address, \<open>buffers\<close> the two members together with the two pointers.
\<close>

datatype which = One | Two

record buffers =
  b_one :: Trajectory
  b_two :: Trajectory
  best_traj :: which
  comp_traj :: which

definition deref :: "buffers \<Rightarrow> which \<Rightarrow> Trajectory" where
  "deref b w = (case w of One \<Rightarrow> b_one b | Two \<Rightarrow> b_two b)"

definition store :: "buffers \<Rightarrow> which \<Rightarrow> Trajectory \<Rightarrow> buffers" where
  "store b w t = (case w of One \<Rightarrow> b\<lparr>b_one := t\<rparr> | Two \<Rightarrow> b\<lparr>b_two := t\<rparr>)"

text \<open>\<^verbatim>\<open>swap = best_traj; best_traj = comp_traj; comp_traj = swap;\<close>\<close>

definition swap :: "buffers \<Rightarrow> buffers" where
  "swap b = b\<lparr>best_traj := comp_traj b, comp_traj := best_traj b\<rparr>"

text \<open>
  The test of the translate, rotate and strafe sweeps, read after the candidate has been
  generated into \<^verbatim>\<open>*comp_traj\<close>; \<open>current_pos_traj\<close> is the reference trajectory.
\<close>

definition better :: "Trajectory \<Rightarrow> buffers \<Rightarrow> bool" where
  "better current_pos_traj b =
     (0 \<le> cost (deref b (comp_traj b))
      \<and> (cost (deref b (comp_traj b)) < cost (deref b (best_traj b))
           \<or> cost (deref b (best_traj b)) < 0)
      \<and> goal_cost_traj (deref b (comp_traj b)) < goal_cost_traj current_pos_traj)"

text \<open>
  The comparison \<^verbatim>\<open>vtheta_samp > dvtheta || vtheta_samp < -1 * dvtheta\<close> of the in-place
  sweep. With a single theta sample \<^verbatim>\<open>dvtheta\<close> is a division by zero: plus infinity when
  the window \<open>width\<close> is positive (no sample is beyond it), minus infinity when it is
  negative (every sample is), NaN when it is zero (every comparison is false).
\<close>

definition beyond_dvtheta :: "real \<Rightarrow> int \<Rightarrow> real \<Rightarrow> bool" where
  "beyond_dvtheta width samples vtheta_samp =
     (if samples = 1 then width < 0
      else (width / real_of_int (samples - 1) < vtheta_samp
            \<or> vtheta_samp < - 1 * (width / real_of_int (samples - 1))))"

text \<open>The test of the in-place rotation sweep.\<close>

definition better_in_place :: "Trajectory \<Rightarrow> bool \<Rightarrow> buffers \<Rightarrow> bool" where
  "better_in_place current_pos_traj beyond b =
     (0 \<le> cost (deref b (comp_traj b))
      \<and> ((cost (deref b (comp_traj b)) < cost (deref b (best_traj b))
            \<and> goal_cost_traj (deref b (comp_traj b)) < goal_cost_traj (deref b (best_traj b)))
           \<or> cost (deref b (best_traj b)) < 0
           \<or> (yv (deref b (best_traj b)) \<noteq> 0
               \<and> goal_cost_traj (deref b (comp_traj b)) < goal_cost_traj (deref b (best_traj b))
               \<and> cost (deref b (comp_traj b)) < cost (deref b (best_traj b))))
      \<and> beyond
      \<and> goal_cost_traj (deref b (comp_traj b)) < goal_cost_traj current_pos_traj)"

text \<open>
  One candidate: \<^verbatim>\<open>generateTrajectory(\<dots>, *comp_traj)\<close> followed by the conditional swap.
  \<open>gen\<close> is \<^verbatim>\<open>generateTrajectory\<close> with every argument but the sampled velocity and the
  trajectory fixed.
\<close>

definition candidate ::
  "(real \<Rightarrow> real \<Rightarrow> real \<Rightarrow> Trajectory \<Rightarrow> Trajectory option) \<Rightarrow> (buffers \<Rightarrow> bool)
     \<Rightarrow> real \<Rightarrow> real \<Rightarrow> real \<Rightarrow> buffers \<Rightarrow> buffers option" where
  "candidate gen accept vx_samp vy_samp vtheta_samp b =
     (case gen vx_samp vy_samp vtheta_samp (deref b (comp_traj b)) of
        None \<Rightarrow> None
      | Some t \<Rightarrow>
          let b1 = store b (comp_traj b) t
          in Some (if accept b1 then swap b1 else b1))"

subsection \<open>createTrajectories: the sweeps\<close>

text \<open>
  Every \<^verbatim>\<open>for\<close> loop counts from zero up to a bound that does not change: the first numeric
  argument is the number of passes that are left, the next one the running sample. The
  steps \<^verbatim>\<open>dvx\<close> and \<^verbatim>\<open>dvy\<close> are divisions by zero when the sample count is one; the sample
  they are added to is not read again in that case, since the loop ends.
\<close>

fun theta_sweep ::
  "(real \<Rightarrow> real \<Rightarrow> real \<Rightarrow> Trajectory \<Rightarrow> Trajectory option) \<Rightarrow> Trajectory \<Rightarrow> real \<Rightarrow> real \<Rightarrow> real
     \<Rightarrow> nat \<Rightarrow> real \<Rightarrow> buffers \<Rightarrow> buffers option" where
  "theta_sweep gen ref dvtheta vx_samp vy_samp 0 vtheta_samp b = Some b"
| "theta_sweep gen ref dvtheta vx_samp vy_samp (Suc n) vtheta_samp b =
     (case candidate gen (better ref) vx_samp vy_samp vtheta_samp b of
        None \<Rightarrow> None
      | Some b' \<Rightarrow> theta_sweep gen ref dvtheta vx_samp vy_samp n (vtheta_samp + dvtheta) b')"

text \<open>Lines 716 to 761: for each \<^verbatim>\<open>vx_samp\<close> the straight candidate, then the theta sweep.\<close>

fun x_sweep ::
  "(real \<Rightarrow> real \<Rightarrow> real \<Rightarrow> Trajectory \<Rightarrow> Trajectory option) \<Rightarrow> Trajectory \<Rightarrow> real \<Rightarrow> real \<Rightarrow> real
     \<Rightarrow> nat \<Rightarrow> real \<Rightarrow> nat \<Rightarrow> real \<Rightarrow> buffers \<Rightarrow> buffers option" where
  "x_sweep gen ref dvx dvtheta min_vel_theta thetas vy_samp 0 vx_samp b = Some b"
| "x_sweep gen ref dvx dvtheta min_vel_theta thetas vy_samp (Suc n) vx_samp b =
     (case candidate gen (better ref) vx_samp vy_samp 0 b of
        None \<Rightarrow> None
      | Some b1 \<Rightarrow>
          (case theta_sweep gen ref dvtheta vx_samp vy_samp thetas min_vel_theta b1 of
             None \<Rightarrow> None
           | Some b2 \<Rightarrow>
               x_sweep gen ref dvx dvtheta min_vel_theta thetas vy_samp n (vx_samp + dvx) b2))"

text \<open>The lateral loop, with its \<^verbatim>\<open>continue\<close> for samples under 0.01 in magnitude.\<close>

fun y_sweep ::
  "(real \<Rightarrow> real \<Rightarrow> real \<Rightarrow> Trajectory \<Rightarrow> Trajectory option) \<Rightarrow> Trajectory \<Rightarrow> real \<Rightarrow> real
     \<Rightarrow> nat \<Rightarrow> real \<Rightarrow> buffers \<Rightarrow> buffers option" where
  "y_sweep gen ref dvy vx_samp 0 vy_samp b = Some b"
| "y_sweep gen ref dvy vx_samp (Suc n) vy_samp b =
     (if \<bar>vy_samp\<bar> < 0.01 then y_sweep gen ref dvy vx_samp n (vy_samp + dvy) b
      else
        (case candidate gen (better ref) vx_samp vy_samp 0 b of
           None \<Rightarrow> None
         | Some b' \<Rightarrow> y_sweep gen ref dvy vx_samp n (vy_samp + dvy) b'))"

text \<open>Lines 793 to 824: the lateral loop again for \<^verbatim>\<open>vx_samples_ / 2\<close> forward speeds.\<close>

fun xy_sweep ::
  "(real \<Rightarrow> real \<Rightarrow> real \<Rightarrow> Trajectory \<Rightarrow> Trajectory option) \<Rightarrow> Trajectory \<Rightarrow> real \<Rightarrow> real \<Rightarrow> real
     \<Rightarrow> nat \<Rightarrow> nat \<Rightarrow> real \<Rightarrow> buffers \<Rightarrow> buffers option" where
  "xy_sweep gen ref dvx dvy vy_first ys 0 vx_samp b = Some b"
| "xy_sweep gen ref dvx dvy vy_first ys (Suc n) vx_samp b =
     (case y_sweep gen ref dvy vx_samp ys vy_first b of
        None \<Rightarrow> None
      | Some b' \<Rightarrow> xy_sweep gen ref dvx dvy vy_first ys n (vx_samp + dvx) b')"

text \<open>Lines 874 to 939: rotation in place, the sample pushed out to the minimum speed.\<close>

fun rotate_sweep ::
  "(real \<Rightarrow> real \<Rightarrow> real \<Rightarrow> Trajectory \<Rightarrow> Trajectory option) \<Rightarrow> Trajectory \<Rightarrow> real \<Rightarrow> real \<Rightarrow> int
     \<Rightarrow> nat \<Rightarrow> real \<Rightarrow> buffers \<Rightarrow> buffers option" where
  "rotate_sweep gen ref min_in_place width samples 0 vtheta_samp b = Some b"
| "rotate_sweep gen ref min_in_place width samples (Suc n) vtheta_samp b =
     (let vtheta_samp_limited =
            (if 0 < vtheta_samp then max vtheta_samp min_in_place
             else min vtheta_samp (- 1 * min_in_place))
      in case candidate gen (better_in_place ref (beyond_dvtheta width samples vtheta_samp))
                0 0 vtheta_samp_limited b of
           None \<Rightarrow> None
         | Some b' \<Rightarrow>
             rotate_sweep gen ref min_in_place width samples n
               (vtheta_samp + width / real_of_int (samples - 1)) b')"

text \<open>
  Lines 680 to 940: the three sampling tiers in their order, from the buffers as the
  caller left them. Both costs are set to \<open>-1\<close> first.
\<close>

definition sampling_tiers ::
  "TrajectoryPlanner \<Rightarrow> (real \<Rightarrow> real \<Rightarrow> real \<Rightarrow> Trajectory \<Rightarrow> Trajectory option) \<Rightarrow> limits
     \<Rightarrow> Trajectory \<Rightarrow> buffers option" where
  "sampling_tiers p gen l current_pos_traj =
     (let dvx = (l_max_vel_x l - l_min_vel_x l) / real_of_int (vx_samples p - 1);
          dvy = (l_max_vel_y l - l_min_vel_y l) / real_of_int (vy_samples p - 1);
          dvtheta = (l_max_vel_theta l - l_min_vel_theta l) / real_of_int (vtheta_samples p - 1);
          b0 = \<lparr>b_one = (traj_one p)\<lparr>cost := - 1\<rparr>, b_two = (traj_two p)\<lparr>cost := - 1\<rparr>,
                best_traj = One, comp_traj = Two\<rparr>
      in case x_sweep gen current_pos_traj dvx dvtheta (l_min_vel_theta l)
                (nat (vtheta_samples p - 1)) 0 (nat (vx_samples p)) (l_min_vel_x l) b0 of
           None \<Rightarrow> None
         | Some b1 \<Rightarrow>
             (case (if holonomic_robot p then
                      (case y_sweep gen current_pos_traj dvy 0 (nat (vy_samples p - 1))
                              (l_min_vel_y l) b1 of
                         None \<Rightarrow> None
                       | Some b' \<Rightarrow>
                           xy_sweep gen current_pos_traj dvx dvy (l_min_vel_y l)
                             (nat (vy_samples p - 1)) (nat (vx_samples p div 2))
                             (l_min_vel_x l / 2) b')
                    else Some b1) of
                None \<Rightarrow> None
              | Some b2 \<Rightarrow>
                  rotate_sweep gen current_pos_traj (min_in_place_vel_th p)
                    (l_max_vel_theta l - l_min_vel_theta l) (vtheta_samples p)
                    (nat (vtheta_samples p)) (l_min_vel_theta l) b2))"

subsection \<open>createTrajectories: the oscillation and escape flags\<close>

text \<open>Lines 945 to 971, for the trajectory \<open>t\<close> that \<^verbatim>\<open>best_traj\<close> points to.\<close>

definition mark_oscillation :: "TrajectoryPlanner \<Rightarrow> Trajectory \<Rightarrow> real \<Rightarrow> real \<Rightarrow> TrajectoryPlanner" where
  "mark_oscillation p t x y =
     (if \<not> 0 < xv t then
        (let p1 =
           (if thetav t < 0 then
              (if rotating_right p then p\<lparr>stuck_right := True\<rparr> else p)\<lparr>rotating_right := True\<rparr>
            else if 0 < thetav t then
              (if rotating_left p then p\<lparr>stuck_left := True\<rparr> else p)\<lparr>rotating_left := True\<rparr>
            else if 0 < yv t then
              (if strafe_right p then p\<lparr>stuck_right_strafe := True\<rparr> else p)\<lparr>strafe_right := True\<rparr>
            else if yv t < 0 then
              (if strafe_left p then p\<lparr>stuck_left_strafe := True\<rparr> else p)\<lparr>strafe_left := True\<rparr>
            else p)
         in p1\<lparr>prev_x := x, prev_y := y\<rparr>)
      else p)"

text \<open>
  Lines 1042 to 1069: the same block after the disabled lateral tier, with other flags
  in its branches. It is entered only if the cost is non-negative, which the first block
  has excluded by returning.
\<close>

definition mark_oscillation_late :: "TrajectoryPlanner \<Rightarrow> Trajectory \<Rightarrow> real \<Rightarrow> real \<Rightarrow> TrajectoryPlanner" where
  "mark_oscillation_late p t x y =
     (if \<not> 0 < xv t then
        (let p1 =
           (if thetav t < 0 then
              (if rotating_right p then p\<lparr>stuck_right := True\<rparr> else p)\<lparr>rotating_left := True\<rparr>
            else if 0 < thetav t then
              (if rotating_left p then p\<lparr>stuck_left := True\<rparr> else p)\<lparr>rotating_right := True\<rparr>
            else if 0 < yv t then
              (if strafe_right p then p\<lparr>stuck_right_strafe := True\<rparr> else p)\<lparr>strafe_left := True\<rparr>
            else if yv t < 0 then
              (if strafe_left p then p\<lparr>stuck_left_strafe := True\<rparr> else p)\<lparr>strafe_right := True\<rparr>
            else p)
         in p1\<lparr>prev_x := x, prev_y := y\<rparr>)
      else p)"

text \<open>Lines 973 to 983 (and 1071 to 1081, 1111 to 1121).\<close>

definition reset_oscillation :: "TrajectoryPlanner \<Rightarrow> real \<Rightarrow> real \<Rightarrow> TrajectoryPlanner" where
  "reset_oscillation p x y =
     (let dist = hypot (x - prev_x p) (y - prev_y p) in
      if oscillation_reset_dist p < dist then
        p\<lparr>rotating_left := False, rotating_right := False, strafe_left := False,
          strafe_right := False, stuck_left := False, stuck_right := False,
          stuck_left_strafe := False, stuck_right_strafe := False\<rparr>
      else p)"

text \<open>Lines 985 to 989 (and 1083 to 1086, 1131 to 1136).\<close>

definition reset_escape :: "TrajectoryPlanner \<Rightarrow> real \<Rightarrow> real \<Rightarrow> real \<Rightarrow> TrajectoryPlanner" where
  "reset_escape p x y theta =
     (let dist = hypot (x - escape_x p) (y - escape_y p) in
      if escape_reset_dist p < dist
         \<or> escape_reset_theta p < \<bar>shortest_angular_distance p (escape_theta p) theta\<bar>
      then p\<lparr>escaping := False\<rparr> else p)"

text \<open>Writing the two buffers back into the members.\<close>

definition keep_buffers :: "TrajectoryPlanner \<Rightarrow> buffers \<Rightarrow> TrajectoryPlanner" where
  "keep_buffers p b = p\<lparr>traj_one := b_one b, traj_two := b_two b\<rparr>"

subsection \<open>createTrajectories: the backup tier and the whole function\<close>

text \<open>
  Lines 1091 to 1147, entered with the buffers \<open>b\<close> as the sampling tiers left them. The
  conditional swap is followed by the unconditional one.
\<close>

definition backup_tier ::
  "TrajectoryPlanner \<Rightarrow> (real \<Rightarrow> real \<Rightarrow> real \<Rightarrow> Trajectory \<Rightarrow> Trajectory option) \<Rightarrow> buffers
     \<Rightarrow> real \<Rightarrow> real \<Rightarrow> real \<Rightarrow> (Trajectory \<times> TrajectoryPlanner) option" where
  "backup_tier p gen b x y theta =
     (case gen (backup_vel p) 0 0 (deref b (comp_traj b)) of
        None \<Rightarrow> None
      | Some t \<Rightarrow>
          let b1 = store b (comp_traj b) t;
              b2 = (if 0 \<le> cost (deref b1 (comp_traj b1))
                       \<and> (cost (deref b1 (comp_traj b1)) < cost (deref b1 (best_traj b1))
                            \<or> cost (deref b1 (best_traj b1)) < 0)
                    then swap b1 else b1);
              b3 = swap b2;
              p1 = reset_oscillation p x y;
              p2 = (if \<not> escaping p1 \<and> - 2 < cost (deref b3 (best_traj b3))
                    then p1\<lparr>escape_x := x, escape_y := y, escape_theta := theta\<rparr> else p1);
              p3 = reset_escape p2 x y theta;
              b4 = (if cost (deref b3 (best_traj b3)) = - 1
                    then store b3 (best_traj b3) ((deref b3 (best_traj b3))\<lparr>cost := 1\<rparr>)
                    else b3)
          in Some (deref b4 (best_traj b4), keep_buffers p3 b4))"

text \<open>
  The call \<^verbatim>\<open>generateTrajectory(x, y, theta, vx, vy, vtheta, vx_samp, vy_samp, vtheta_samp,
  acc_x, acc_y, acc_theta, impossible_cost, *)\<close> that \<^verbatim>\<open>createTrajectories\<close> repeats for every
  sample, with \<^verbatim>\<open>impossible_cost = path_map_.obstacleCosts()\<close>.
\<close>

definition sampler ::
  "TrajectoryPlanner \<Rightarrow> real \<Rightarrow> real \<Rightarrow> real \<Rightarrow> real \<Rightarrow> real \<Rightarrow> real \<Rightarrow> real \<Rightarrow> real \<Rightarrow> real
     \<Rightarrow> real \<Rightarrow> real \<Rightarrow> real \<Rightarrow> Trajectory \<Rightarrow> Trajectory option" where
  "sampler p x y theta vx vy vtheta acc_x acc_y acc_theta =
     (\<lambda>vx_samp vy_samp vtheta_samp.
        generateTrajectory p x y theta vx vy vtheta vx_samp vy_samp vtheta_samp
          acc_x acc_y acc_theta (obstacleCosts (path_map p)))"

text \<open>
  Lines 646 to 940: the limits, the reference trajectory \<^verbatim>\<open>current_pos_traj\<close> generated
  into the default-constructed \<open>fresh\<close>, and the sampling tiers. The result is the
  reference trajectory and the buffers as the tiers leave them.
\<close>

definition search ::
  "TrajectoryPlanner \<Rightarrow> Trajectory \<Rightarrow> real \<Rightarrow> real \<Rightarrow> real \<Rightarrow> real \<Rightarrow> real \<Rightarrow> real \<Rightarrow> real \<Rightarrow> real
     \<Rightarrow> real \<Rightarrow> real \<Rightarrow> real \<Rightarrow> (Trajectory \<times> buffers) option" where
  "search p fresh junk_x junk_y x y theta vx vy vtheta acc_x acc_y acc_theta =
     (let l = velocity_limits p junk_x junk_y x y vx vy vtheta acc_x acc_y acc_theta;
          gen = sampler p x y theta vx vy vtheta acc_x acc_y acc_theta
      in case gen 0 0 0 fresh of
           None \<Rightarrow> None
         | Some current_pos_traj \<Rightarrow>
             (case sampling_tiers p gen l current_pos_traj of
                None \<Rightarrow> None
              | Some b \<Rightarrow> Some (current_pos_traj, b)))"

text \<open>
  \<^verbatim>\<open>createTrajectories\<close> returns the chosen trajectory by value and leaves the planner
  changed; the model returns both. The block under \<^verbatim>\<open>if (false)\<close> is left out; the
  second test of the cost, after it, is kept.
\<close>

definition createTrajectories ::
  "TrajectoryPlanner \<Rightarrow> Trajectory \<Rightarrow> real \<Rightarrow> real \<Rightarrow> real \<Rightarrow> real \<Rightarrow> real \<Rightarrow> real \<Rightarrow> real \<Rightarrow> real
     \<Rightarrow> real \<Rightarrow> real \<Rightarrow> real \<Rightarrow> (Trajectory \<times> TrajectoryPlanner) option" where
  "createTrajectories p fresh junk_x junk_y x y theta vx vy vtheta acc_x acc_y acc_theta =
     (case search p fresh junk_x junk_y x y theta vx vy vtheta acc_x acc_y acc_theta of
        None \<Rightarrow> None
      | Some (current_pos_traj, b) \<Rightarrow>
          if 0 \<le> cost (deref b (best_traj b)) then
            Some (deref b (best_traj b),
                  keep_buffers
                    (reset_escape
                       (reset_oscillation (mark_oscillation p (deref b (best_traj b)) x y) x y)
                       x y theta) b)
          else if 0 \<le> cost (deref b (best_traj b)) then
            Some (deref b (best_traj b),
                  keep_buffers
                    (reset_escape
                       (reset_oscillation
                          (mark_oscillation_late p (deref b (best_traj b)) x y) x y)
                       x y theta) b)
          else backup_tier p (sampler p x y theta vx vy vtheta acc_x acc_y acc_theta) b x y theta)"

subsection \<open>findBestPath and getLocalGoal\<close>

text \<open>
  The member functions of \<^verbatim>\<open>MapGrid\<close> and the footprint helper that \<^verbatim>\<open>findBestPath\<close> calls
  are defined in other files; they are parameters here.
\<close>

record GridOps =
  resetPathDist :: "MapGrid \<Rightarrow> MapGrid"
  setTargetCells :: "Costmap2D \<Rightarrow> PoseStamped list \<Rightarrow> MapGrid \<Rightarrow> MapGrid"
  setLocalGoal :: "Costmap2D \<Rightarrow> PoseStamped list \<Rightarrow> MapGrid \<Rightarrow> MapGrid"
  getFootprintCells :: "real \<times> real \<times> real \<Rightarrow> Costmap2D \<Rightarrow> (nat \<times> nat) list"

text \<open>\<^verbatim>\<open>path_map_(x, y).within_robot = true\<close>\<close>

definition mark_within_robot :: "nat \<times> nat \<Rightarrow> MapGrid \<Rightarrow> MapGrid" where
  "mark_within_robot c m =
     m\<lparr>within_robot := (\<lambda>cx cy. if (cx, cy) = c then True else within_robot m cx cy)\<rparr>"

text \<open>Lines 1158 to 1177 of \<^verbatim>\<open>findBestPath\<close>: both grids are reset and seeded again.\<close>

definition refresh_grids :: "GridOps \<Rightarrow> TrajectoryPlanner \<Rightarrow> real \<times> real \<times> real \<Rightarrow> TrajectoryPlanner" where
  "refresh_grids ops p pos =
     (let pm = resetPathDist ops (path_map p);
          gm = resetPathDist ops (goal_map p);
          footprint_list = getFootprintCells ops pos (costmap p);
          pm1 = fold mark_within_robot footprint_list pm
      in p\<lparr>path_map := setTargetCells ops (costmap p) (global_plan p) pm1,
            goal_map := setLocalGoal ops (costmap p) (global_plan p) gm\<rparr>)"

text \<open>
  \<^verbatim>\<open>findBestPath\<close> returns the best trajectory and writes \<^verbatim>\<open>drive_velocities\<close>; the model
  returns the trajectory, the drive velocities and the planner.
\<close>

definition findBestPath ::
  "GridOps \<Rightarrow> TrajectoryPlanner \<Rightarrow> Trajectory \<Rightarrow> real \<Rightarrow> real \<Rightarrow> real \<times> real \<times> real
     \<Rightarrow> real \<times> real \<times> real
     \<Rightarrow> (Trajectory \<times> (real \<times> real \<times> real) \<times> TrajectoryPlanner) option" where
  "findBestPath ops p fresh junk_x junk_y pos vel =
     (let p1 = refresh_grids ops p pos in
      case pos of (pos0, pos1, pos2) \<Rightarrow>
      case vel of (vel0, vel1, vel2) \<Rightarrow>
        (case createTrajectories p1 fresh junk_x junk_y pos0 pos1 pos2 vel0 vel1 vel2
                (acc_lim_x p1) (acc_lim_y p1) (acc_lim_theta p1) of
           None \<Rightarrow> None
         | Some (best, p2) \<Rightarrow>
             Some (best,
                   (if cost best < 0 then (0, 0, 0) else (xv best, yv best, thetav best)),
                   p2)))"

definition getLocalGoal :: "TrajectoryPlanner \<Rightarrow> real \<times> real" where
  "getLocalGoal p = (goal_x (path_map p), goal_y (path_map p))"

subsection \<open>reconfigure\<close>

text \<open>The fields of \<^verbatim>\<open>BaseLocalPlannerConfig\<close> that \<^verbatim>\<open>reconfigure\<close> reads.\<close>

record BaseLocalPlannerConfig =
  cfg_acc_lim_x :: real
  cfg_acc_lim_y :: real
  cfg_acc_lim_theta :: real
  cfg_max_vel_x :: real
  cfg_min_vel_x :: real
  cfg_max_vel_y :: real
  cfg_min_vel_y :: real
  cfg_max_vel_theta :: real
  cfg_min_vel_theta :: real
  cfg_min_in_place_vel_theta :: real
  cfg_sim_time :: real
  cfg_sim_granularity :: real
  cfg_angular_sim_granularity :: real
  cfg_pdist_scale :: real
  cfg_gdist_scale :: real
  cfg_occdist_scale :: real
  cfg_hdiff_scale :: real
  cfg_path_distance_max :: real
  cfg_oscillation_reset_dist :: real
  cfg_escape_reset_dist :: real
  cfg_escape_reset_theta :: real
  cfg_vx_samples :: int
  cfg_vy_samples :: int
  cfg_vtheta_samples :: int
  cfg_heading_lookahead :: real
  cfg_holonomic_robot :: bool
  cfg_escape_vel :: real
  cfg_dwa :: bool
  cfg_heading_scoring :: bool
  cfg_heading_scoring_timestep :: real
  cfg_simple_attractor :: bool
  cfg_y_vels :: string

text \<open>The two \<^verbatim>\<open>ROS_WARN\<close> messages of \<^verbatim>\<open>reconfigure\<close>.\<close>

datatype warning = NoSamplesX | NoSamplesTheta

text \<open>
  \<^verbatim>\<open>reconfigure\<close> works on a copy of its argument, so the caller's configuration is not
  changed; the model returns the planner and the warnings in the order they are issued.
  \<open>read_y_vels\<close> stands for the splitting of the string \<^verbatim>\<open>y_vels\<close> and the reading of
  each piece as a \<^verbatim>\<open>double\<close>.
\<close>

definition reconfigure ::
  "(string \<Rightarrow> real list) \<Rightarrow> TrajectoryPlanner \<Rightarrow> BaseLocalPlannerConfig
     \<Rightarrow> TrajectoryPlanner \<times> warning list" where
  "reconfigure read_y_vels p config =
     (let p1 = p\<lparr>acc_lim_x := cfg_acc_lim_x config, acc_lim_y := cfg_acc_lim_y config,
                 acc_lim_theta := cfg_acc_lim_theta config,
                 max_vel_x := cfg_max_vel_x config, min_vel_x := cfg_min_vel_x config,
                 max_vel_y := cfg_max_vel_y config, min_vel_y := cfg_min_vel_y config,
                 max_vel_th := cfg_max_vel_theta config, min_vel_th := cfg_min_vel_theta config,
                 min_in_place_vel_th := cfg_min_in_place_vel_theta config,
                 sim_time := cfg_sim_time config, sim_granularity := cfg_sim_granularity config,
                 angular_sim_granularity := cfg_angular_sim_granularity config,
                 pdist_scale := cfg_pdist_scale config, gdist_scale := cfg_gdist_scale config,
                 occdist_scale := cfg_occdist_scale config, hdiff_scale := cfg_hdiff_scale config,
                 path_distance_max := cfg_path_distance_max config\<rparr>;
          p2 = (if meter_scoring p1 then
                  let resolution = getResolution (costmap p1) in
                  p1\<lparr>gdist_scale := gdist_scale p1 * resolution,
                     pdist_scale := pdist_scale p1 * resolution,
                     occdist_scale := occdist_scale p1 * resolution\<rparr>
                else p1);
          p3 = p2\<lparr>oscillation_reset_dist := cfg_oscillation_reset_dist config,
                  escape_reset_dist := cfg_escape_reset_dist config,
                  escape_reset_theta := cfg_escape_reset_theta config,
                  vx_samples := cfg_vx_samples config,
                  vy_samples := cfg_vy_samples config,
                  vtheta_samples := cfg_vtheta_samples config\<rparr>;
          (p4, w4) = (if vx_samples p3 \<le> 0 then (p3\<lparr>vx_samples := 1\<rparr>, [NoSamplesX])
                      else (p3, []));
          (p5, w5) = (if vtheta_samples p4 \<le> 0
                      then (p4\<lparr>vtheta_samples := 1\<rparr>, w4 @ [NoSamplesTheta])
                      else (p4, w4))
      in (p5\<lparr>heading_lookahead := cfg_heading_lookahead config,
             holonomic_robot := cfg_holonomic_robot config,
             backup_vel := cfg_escape_vel config,
             dwa := cfg_dwa config,
             heading_scoring := cfg_heading_scoring config,
             heading_scoring_timestep := cfg_heading_scoring_timestep config,
             simple_attractor := cfg_simple_attractor config,
             y_vels := read_y_vels (cfg_y_vels config)\<rparr>, w5))"

subsection \<open>The passes of the simulation loop, and why one fails\<close>

text \<open>
  The loop of \<^verbatim>\<open>generateTrajectory\<close> after its first \<open>k\<close> passes, for the given arguments.
\<close>

definition after_passes ::
  "TrajectoryPlanner \<Rightarrow> real \<Rightarrow> real \<Rightarrow> real \<Rightarrow> real \<Rightarrow> real \<Rightarrow> real \<Rightarrow> real \<Rightarrow> real \<Rightarrow> real
     \<Rightarrow> real \<Rightarrow> real \<Rightarrow> real \<Rightarrow> real \<Rightarrow> Trajectory \<Rightarrow> nat \<Rightarrow> sim flow" where
  "after_passes p x y theta vx vy vtheta vx_samp vy_samp vtheta_samp
       acc_x acc_y acc_theta impossible_cost t k =
     (let num_steps = num_steps_of p vx_samp vy_samp vtheta_samp in
      sim_loop (sim_step p vx_samp vy_samp vtheta_samp acc_x acc_y acc_theta impossible_cost
                  num_steps (sim_time p / real_of_int num_steps))
        k 0 (sim_init x y theta vx vy vtheta vx_samp vy_samp vtheta_samp t))"


text \<open>
  The three causes for which a pass gives the trajectory up, and the cost that marks each.
  A pass fails for \<open>NoClearPath\<close> when the distances are read at that point and the goal
  or the path distance is not below \<^verbatim>\<open>impossible_cost\<close>.
\<close>

datatype cause = OffMap | Collision | NoClearPath

definition sentinel :: "cause \<Rightarrow> real" where
  "sentinel c = (case c of OffMap \<Rightarrow> - 4 | Collision \<Rightarrow> - 5 | NoClearPath \<Rightarrow> - 2)"

definition no_clear_path ::
  "TrajectoryPlanner \<Rightarrow> real \<Rightarrow> int \<Rightarrow> int \<Rightarrow> sim \<Rightarrow> nat \<Rightarrow> nat \<Rightarrow> bool" where
  "no_clear_path p impossible_cost num_steps i s cell_x cell_y =
     (\<not> simple_attractor p \<and>
      (if heading_scoring p then
         i = num_steps - 1 \<and>
         (case headingDiff p (x_i s) (y_i s) (theta_i s) of
            None \<Rightarrow> False
          | Some (h, g, d) \<Rightarrow> impossible_cost \<le> g \<or> impossible_cost \<le> d)
       else impossible_cost \<le> target_dist (goal_map p) cell_x cell_y
            \<or> impossible_cost \<le> target_dist (path_map p) cell_x cell_y))"

definition failure :: "TrajectoryPlanner \<Rightarrow> real \<Rightarrow> int \<Rightarrow> int \<Rightarrow> sim \<Rightarrow> cause option" where
  "failure p impossible_cost num_steps i s =
     (case worldToMap (costmap p) (x_i s) (y_i s) of
        None \<Rightarrow> Some OffMap
      | Some (cell_x, cell_y) \<Rightarrow>
          if footprintCost p (x_i s) (y_i s) (theta_i s) < 0 then Some Collision
          else if no_clear_path p impossible_cost num_steps i s cell_x cell_y
          then Some NoClearPath else None)"

subsection \<open>A planner to compute with\<close>

text \<open>
  A robot at the origin that is allowed to reverse. The map has two columns of cells, the
  one behind the robot (\<open>x < -0.1\<close>) nearer to the goal of the goal map and farther from
  the path; reversing straight collides there, reversing while turning does not.
\<close>

definition blank :: Trajectory where
  "blank = \<lparr>xv = 0, yv = 0, thetav = 0, cost = 0, goal_cost_traj = 0, path_dist_traj = 0,
            points = []\<rparr>"

definition demo :: TrajectoryPlanner where
  "demo =
     \<lparr>path_map = \<lparr>target_dist = (\<lambda>cx cy. if cx = 0 then 5 else 1),
                  within_robot = (\<lambda>cx cy. False), obstacleCosts = 100,
                  unreachableCellCosts = 101, goal_x = 0, goal_y = 0\<rparr>,
      goal_map = \<lparr>target_dist = (\<lambda>cx cy. if cx = 0 then 1 else 5),
                  within_robot = (\<lambda>cx cy. False), obstacleCosts = 100,
                  unreachableCellCosts = 101, goal_x = 3, goal_y = 0\<rparr>,
      costmap = \<lparr>worldToMap = (\<lambda>wx wy. Some (if wx < - 0.1 then 0 else 1, 0)),
                 getCost = (\<lambda>cx cy. 0), getResolution = 1\<rparr>,
      world_model = (\<lambda>wx wy wth. if wx < - 0.1 \<and> wth = 0 then - 1 else 0),
      shortest_angular_distance = (\<lambda>a b. b - a),
      global_plan = [\<lparr>position_x = 3, position_y = 0, yaw = 0\<rparr>],
      final_goal_x = 3, final_goal_y = 0, final_goal_position_valid = True,
      sim_time = 1, sim_granularity = 0.2, angular_sim_granularity = 1,
      vx_samples = 1, vy_samples = 1, vtheta_samples = 2,
      pdist_scale = 1, gdist_scale = 1, occdist_scale = 1, hdiff_scale = 1,
      path_distance_max = 2,
      acc_lim_x = 1, acc_lim_y = 1, acc_lim_theta = 1,
      prev_x = 0, prev_y = 0, escape_x = 0, escape_y = 0, escape_theta = 0,
      heading_lookahead = 0, oscillation_reset_dist = 1, escape_reset_dist = 1,
      escape_reset_theta = 1, holonomic_robot = False,
      max_vel_x = 0.4, min_vel_x = - 0.4, max_vel_y = 0.1, min_vel_y = - 0.1,
      max_vel_th = 0.3, min_vel_th = 0.1, min_in_place_vel_th = 0.4,
      backup_vel = - 0.1, dwa = False, heading_scoring = False, heading_scoring_timestep = 0,
      meter_scoring = False, simple_attractor = False, y_vels = [], stop_time_buffer = 0,
      sim_period = 0.1,
      stuck_left = False, stuck_right = False, stuck_left_strafe = False,
      stuck_right_strafe = False, rotating_left = False, rotating_right = False,
      strafe_left = False, strafe_right = False, escaping = False,
      traj_one = blank, traj_two = blank\<rparr>"

subsection \<open>An invariant of the search\<close>


subsection \<open>The eight oscillation flags together\<close>

text \<open>The committed flags, then the stuck flags.\<close>

definition flags :: "TrajectoryPlanner \<Rightarrow> bool list" where
  "flags p = [rotating_left p, rotating_right p, strafe_left p, strafe_right p,
              stuck_left p, stuck_right p, stuck_left_strafe p, stuck_right_strafe p]"

subsection \<open>What a pass reads as path distance, and the path term of the cost\<close>

text \<open>
  The path distance a pass reads when it updates the distances: from \<^verbatim>\<open>headingDiff\<close> on
  the last pass with heading scoring, from the path map without it; none in the passes
  that do not update. \<open>path_cost\<close> is the member \<^verbatim>\<open>path_cost_\<close> as it is assigned after the
  loop, \<^verbatim>\<open>pdist_scale_ * path_dist\<close>, for the state the loop ends in.
\<close>

definition path_distance_read ::
  "TrajectoryPlanner \<Rightarrow> int \<Rightarrow> int \<Rightarrow> sim \<Rightarrow> nat \<Rightarrow> nat \<Rightarrow> real option" where
  "path_distance_read p num_steps i s cell_x cell_y =
     (if simple_attractor p then None
      else if heading_scoring p then
        (if i = num_steps - 1 then
           (case headingDiff p (x_i s) (y_i s) (theta_i s) of
              None \<Rightarrow> None
            | Some (h, g, d) \<Rightarrow> Some d)
         else None)
      else Some (target_dist (path_map p) cell_x cell_y))"

definition path_cost :: "TrajectoryPlanner \<Rightarrow> sim flow \<Rightarrow> real option" where
  "path_cost p f = (case f of Continue s \<Rightarrow> Some (pdist_scale p * path_dist s) | _ \<Rightarrow> None)"

subsection \<open>The grid operations, from the specification\<close>

text \<open>
  Modelled from the spec: \<^verbatim>\<open>MapGrid::resetPathDist\<close>, \<^verbatim>\<open>setTargetCells\<close> and
  \<^verbatim>\<open>setLocalGoal\<close> and the footprint helper are defined in other files of the repository.
  The spec: a reset sets every cell to ``unreachable'' and clears \<open>within_robot\<close>; the path
  map is seeded (distance 0) from every pose of the path, the goal map from the final pose
  of the path only, the local goal, which is the anchor point of the goal map. The
  propagation of the distances away from the seeds is left out here, and the footprint
  is the cell under the robot.
\<close>

definition spec_resetPathDist :: "MapGrid \<Rightarrow> MapGrid" where
  "spec_resetPathDist m =
     m\<lparr>target_dist := (\<lambda>cx cy. unreachableCellCosts m), within_robot := (\<lambda>cx cy. False)\<rparr>"

definition spec_setTargetCells :: "Costmap2D \<Rightarrow> PoseStamped list \<Rightarrow> MapGrid \<Rightarrow> MapGrid" where
  "spec_setTargetCells cm plan m =
     m\<lparr>target_dist :=
         (\<lambda>cx cy. if Some (cx, cy) \<in> set (map (\<lambda>q. worldToMap cm (position_x q) (position_y q)) plan)
                   then 0 else target_dist m cx cy)\<rparr>"

definition spec_setLocalGoal :: "Costmap2D \<Rightarrow> PoseStamped list \<Rightarrow> MapGrid \<Rightarrow> MapGrid" where
  "spec_setLocalGoal cm plan m =
     (case filter (\<lambda>q. worldToMap cm (position_x q) (position_y q) \<noteq> None) plan of
        [] \<Rightarrow> m
      | q # qs \<Rightarrow>
          let g = last (q # qs) in
          m\<lparr>target_dist :=
              (\<lambda>cx cy. if Some (cx, cy) = worldToMap cm (position_x g) (position_y g)
                        then 0 else target_dist m cx cy),
            goal_x := position_x g, goal_y := position_y g\<rparr>)"

definition spec_getFootprintCells :: "real \<times> real \<times> real \<Rightarrow> Costmap2D \<Rightarrow> (nat \<times> nat) list" where
  "spec_getFootprintCells pos cm =
     (case pos of (px, py, pth) \<Rightarrow> (case worldToMap cm px py of None \<Rightarrow> [] | Some c \<Rightarrow> [c]))"

definition spec_ops :: GridOps where
  "spec_ops = \<lparr>resetPathDist = spec_resetPathDist, setTargetCells = spec_setTargetCells,
               setLocalGoal = spec_setLocalGoal, getFootprintCells = spec_getFootprintCells\<rparr>"

subsection \<open>Trajectories of the demo planner\<close>

text \<open>
  What the demo planner generates from rest at the origin: the reference trajectory, the
  candidate that reverses while turning, and the rotation in place. \<open>wall\<close> is a world
  model in which the footprint collides everywhere.
\<close>

definition stand_still :: Trajectory where
  "stand_still = blank\<lparr>xv := 0, yv := 0, thetav := 0, cost := 5, goal_cost_traj := 5,
                        path_dist_traj := - 2, points := [(0, 0, 0)]\<rparr>"

definition back_and_turn :: Trajectory where
  "back_and_turn = blank\<lparr>xv := - (2 / 5), yv := 0, thetav := 1 / 10, cost := 6,
                          goal_cost_traj := 1, path_dist_traj := - 2,
                          points := [(0, 0, 0), (- (1 / 5), 0, 1 / 20)]\<rparr>"

definition turn_in_place :: Trajectory where
  "turn_in_place = blank\<lparr>xv := 0, yv := 0, thetav := 2 / 5, cost := 5, goal_cost_traj := 5,
                          path_dist_traj := - 2, points := [(0, 0, 0)]\<rparr>"

definition wall :: "real \<Rightarrow> real \<Rightarrow> real \<Rightarrow> real" where
  "wall wx wy wth = - 1"

subsection \<open>The incumbent across a sweep\<close>


section \<open>Properties\<close>

subsection \<open>generateTrajectory does not read the trajectory it fills\<close>

lemma sim_agree_fields:
  assumes "sim_agree s s'"
  shows "x_i s' = x_i s" "y_i s' = y_i s" "theta_i s' = theta_i s" "vx_i s' = vx_i s"
    "vy_i s' = vy_i s" "vtheta_i s' = vtheta_i s" "path_dist s' = path_dist s"
    "goal_dist s' = goal_dist s" "occ_cost s' = occ_cost s" "heading_diff s' = heading_diff s"
    "time s' = time s" "traj_agree (traj s) (traj s')"
proof -
  from assms have e: "s' = s\<lparr>traj := traj s'\<rparr>" and t: "traj_agree (traj s) (traj s')"
    by (simp_all add: sim_agree_def)
  show "x_i s' = x_i s" by (subst e) simp
  show "y_i s' = y_i s" by (subst e) simp
  show "theta_i s' = theta_i s" by (subst e) simp
  show "vx_i s' = vx_i s" by (subst e) simp
  show "vy_i s' = vy_i s" by (subst e) simp
  show "vtheta_i s' = vtheta_i s" by (subst e) simp
  show "path_dist s' = path_dist s" by (subst e) simp
  show "goal_dist s' = goal_dist s" by (subst e) simp
  show "occ_cost s' = occ_cost s" by (subst e) simp
  show "heading_diff s' = heading_diff s" by (subst e) simp
  show "time s' = time s" by (subst e) simp
  show "traj_agree (traj s) (traj s')" by (rule t)
qed

lemma sim_agreeI:
  "x_i s' = x_i s \<Longrightarrow> y_i s' = y_i s \<Longrightarrow> theta_i s' = theta_i s \<Longrightarrow> vx_i s' = vx_i s \<Longrightarrow>
   vy_i s' = vy_i s \<Longrightarrow> vtheta_i s' = vtheta_i s \<Longrightarrow> path_dist s' = path_dist s \<Longrightarrow>
   goal_dist s' = goal_dist s \<Longrightarrow> occ_cost s' = occ_cost s \<Longrightarrow> heading_diff s' = heading_diff s \<Longrightarrow>
   time s' = time s \<Longrightarrow> traj_agree (traj s) (traj s') \<Longrightarrow> sim_agree s s'"
  by (cases s, cases s') (simp add: sim_agree_def)

lemma flow_agree_simps:
  "flow_agree (Return a) (Return b) = traj_agree a b"
  "flow_agree (Continue s) (Continue s') = sim_agree s s'"
  "flow_agree UndefinedBehaviour UndefinedBehaviour = True"
  "flow_agree (Return a) (Continue s') = False"
  "flow_agree (Return a) UndefinedBehaviour = False"
  "flow_agree (Continue s) (Return b) = False"
  "flow_agree (Continue s) UndefinedBehaviour = False"
  "flow_agree UndefinedBehaviour (Return b) = False"
  "flow_agree UndefinedBehaviour (Continue s') = False"
  by (simp_all add: flow_agree_def)

lemma update_distances_agree:
  assumes "sim_agree s s'"
  shows "flow_agree (update_distances p ic s) (update_distances p ic s')"
  using sim_agree_fields[OF assms]
  by (auto simp: update_distances_def flow_agree_simps Let_def traj_agree_def intro!: sim_agreeI)

lemma score_point_agree:
  assumes "sim_agree s s'"
  shows "flow_agree (score_point p ic ns i cx cy s) (score_point p ic ns i cx cy s')"
proof -
  note f = sim_agree_fields[OF assms]
  have a: "sim_agree (s\<lparr>goal_dist := g\<rparr>) (s'\<lparr>goal_dist := g\<rparr>)" for g
    using f by (intro sim_agreeI) simp_all
  have b: "flow_agree
      (update_distances p ic (s\<lparr>heading_diff := h, goal_dist := g, path_dist := d\<rparr>))
      (update_distances p ic (s'\<lparr>heading_diff := h, goal_dist := g, path_dist := d\<rparr>))" for h g d
    using f by (intro update_distances_agree sim_agreeI) simp_all
  have c: "flow_agree
      (update_distances p ic (s\<lparr>path_dist := d, goal_dist := g\<rparr>))
      (update_distances p ic (s'\<lparr>path_dist := d, goal_dist := g\<rparr>))" for g d
    using f by (intro update_distances_agree sim_agreeI) simp_all
  show ?thesis
    unfolding score_point_def f(1-3)
    using a b c assms
    by (simp add: flow_agree_simps Let_def split: list.splits option.splits prod.splits)
qed

lemma advance_agree:
  assumes "sim_agree s s'"
  shows "sim_agree (advance a b c d e f g s) (advance a b c d e f g s')"
  using sim_agree_fields[OF assms]
  by (intro sim_agreeI) (simp_all add: advance_def Let_def traj_agree_def)

lemma flow_agree_cases:
  assumes "flow_agree f g"
  shows "(\<exists>a b. f = Return a \<and> g = Return b \<and> traj_agree a b)
       \<or> (\<exists>s s'. f = Continue s \<and> g = Continue s' \<and> sim_agree s s')
       \<or> (f = UndefinedBehaviour \<and> g = UndefinedBehaviour)"
  using assms by (cases f; cases g) (simp_all add: flow_agree_simps)

lemma sim_step_agree:
  assumes "sim_agree s s'"
  shows "flow_agree (sim_step p a b c d e f ic ns dt i s) (sim_step p a b c d e f ic ns dt i s')"
proof -
  note f = sim_agree_fields[OF assms]
  have o: "sim_agree (s\<lparr>occ_cost := v\<rparr>) (s'\<lparr>occ_cost := v\<rparr>)" for v
    using f by (intro sim_agreeI) simp_all
  have sp: "flow_agree (score_point p ic ns i cx cy (s\<lparr>occ_cost := v\<rparr>))
                       (score_point p ic ns i cx cy (s'\<lparr>occ_cost := v\<rparr>))" for v cx cy
    by (rule score_point_agree[OF o])
  show ?thesis
  proof (cases "worldToMap (costmap p) (x_i s) (y_i s)")
    case None
    then show ?thesis using f(12)
      by (simp add: sim_step_def f flow_agree_simps traj_agree_def)
  next
    case (Some cell)
    obtain cx cy where cell: "cell = (cx, cy)" by (cases cell)
    show ?thesis
    proof (cases "footprintCost p (x_i s) (y_i s) (theta_i s) < 0")
      case True
      then show ?thesis using f(12) Some cell
        by (simp add: sim_step_def f flow_agree_simps traj_agree_def)
    next
      case False
      let ?v = "max (max (occ_cost s) (footprintCost p (x_i s) (y_i s) (theta_i s)))
                    (real (getCost (costmap p) cx cy))"
      from flow_agree_cases[OF sp[of cx cy ?v]] show ?thesis
        using False Some cell
        by (auto simp: sim_step_def f Let_def flow_agree_simps intro: advance_agree)
    qed
  qed
qed

lemma sim_loop_agree:
  assumes body: "\<And>i s s'. sim_agree s s' \<Longrightarrow> flow_agree (body i s) (body i s')"
    and "sim_agree s s'"
  shows "flow_agree (sim_loop body n i s) (sim_loop body n i s')"
  using assms(2)
proof (induction n arbitrary: i s s')
  case 0
  then show ?case by (simp add: flow_agree_simps)
next
  case (Suc n)
  from flow_agree_cases[OF body[OF Suc.prems, of i]] show ?case
    using Suc.IH by (auto simp: flow_agree_simps)
qed

lemma sim_init_agree:
  "sim_agree (sim_init x y theta vx vy vtheta a b c t) (sim_init x y theta vx vy vtheta a b c t')"
  by (intro sim_agreeI) (simp_all add: sim_init_def traj_agree_def)

lemma final_cost_agree: "sim_agree s s' \<Longrightarrow> final_cost p s' = final_cost p s"
  by (simp add: final_cost_def sim_agree_fields)

lemma generateTrajectory_agree:
  "rel_option traj_agree
     (generateTrajectory p x y theta vx vy vtheta a b c d e f ic t)
     (generateTrajectory p x y theta vx vy vtheta a b c d e f ic t')"
proof -
  let ?n = "num_steps_of p a b c"
  let ?body = "sim_step p a b c d e f ic ?n (sim_time p / real_of_int ?n)"
  have "flow_agree (sim_loop ?body (nat ?n) 0 (sim_init x y theta vx vy vtheta a b c t))
                   (sim_loop ?body (nat ?n) 0 (sim_init x y theta vx vy vtheta a b c t'))"
    by (rule sim_loop_agree[OF sim_step_agree sim_init_agree])
  from flow_agree_cases[OF this] show ?thesis
  proof (elim disjE exE conjE)
    fix u u' assume "sim_loop ?body (nat ?n) 0 (sim_init x y theta vx vy vtheta a b c t) = Return u"
      "sim_loop ?body (nat ?n) 0 (sim_init x y theta vx vy vtheta a b c t') = Return u'"
      "traj_agree u u'"
    then show ?thesis by (simp add: generateTrajectory_def Let_def)
  next
    fix s s' assume "sim_loop ?body (nat ?n) 0 (sim_init x y theta vx vy vtheta a b c t) = Continue s"
      "sim_loop ?body (nat ?n) 0 (sim_init x y theta vx vy vtheta a b c t') = Continue s'"
      and ag: "sim_agree s s'"
    moreover have "traj_agree ((traj s)\<lparr>cost := final_cost p s, goal_cost_traj := goal_dist s * gdist_scale p\<rparr>)
        ((traj s')\<lparr>cost := final_cost p s', goal_cost_traj := goal_dist s' * gdist_scale p\<rparr>)"
      using sim_agree_fields(12)[OF ag]
      by (simp add: traj_agree_def final_cost_agree[OF ag])
    ultimately show ?thesis by (simp add: generateTrajectory_def Let_def)
  next
    assume "sim_loop ?body (nat ?n) 0 (sim_init x y theta vx vy vtheta a b c t) = UndefinedBehaviour"
      "sim_loop ?body (nat ?n) 0 (sim_init x y theta vx vy vtheta a b c t') = UndefinedBehaviour"
    then show ?thesis by (simp add: generateTrajectory_def Let_def)
  qed
qed

subsection \<open>checkTrajectory and scoreTrajectory\<close>

text \<open>
  C10. \<^verbatim>\<open>checkTrajectory\<close> answers true exactly when \<^verbatim>\<open>scoreTrajectory\<close> on the same
  arguments is non-negative, and \<^verbatim>\<open>scoreTrajectory\<close> is the cost that
  \<^verbatim>\<open>generateTrajectory\<close> assigns, with the planner's stored acceleration limits and the
  path map's obstacle sentinel as the impossible cost, whatever trajectory \<open>t\<close> it is
  handed to fill: the cost does not depend on what the fresh trajectory held.
\<close>

theorem checkTrajectory_scoreTrajectory:
  "checkTrajectory p fresh x y theta vx vy vtheta vx_samp vy_samp vtheta_samp
     = map_option (\<lambda>c. 0 \<le> c)
         (scoreTrajectory p fresh x y theta vx vy vtheta vx_samp vy_samp vtheta_samp)
   \<and> scoreTrajectory p fresh x y theta vx vy vtheta vx_samp vy_samp vtheta_samp
     = map_option cost
         (generateTrajectory p x y theta vx vy vtheta vx_samp vy_samp vtheta_samp
            (acc_lim_x p) (acc_lim_y p) (acc_lim_theta p) (obstacleCosts (path_map p)) t)"
proof -
  have "rel_option traj_agree
     (generateTrajectory p x y theta vx vy vtheta vx_samp vy_samp vtheta_samp
            (acc_lim_x p) (acc_lim_y p) (acc_lim_theta p) (obstacleCosts (path_map p)) fresh)
     (generateTrajectory p x y theta vx vy vtheta vx_samp vy_samp vtheta_samp
            (acc_lim_x p) (acc_lim_y p) (acc_lim_theta p) (obstacleCosts (path_map p)) t)"
    by (rule generateTrajectory_agree)
  then show ?thesis
    by (auto simp: checkTrajectory_def scoreTrajectory_def Let_def traj_agree_def
        elim!: option.rel_cases split: option.splits)
qed




subsection \<open>The loop stops at the first pass that fails\<close>

lemma sim_loop_add:
  "sim_loop body (k + m) i s =
     (case sim_loop body k i s of
        Return t \<Rightarrow> Return t
      | UndefinedBehaviour \<Rightarrow> UndefinedBehaviour
      | Continue s' \<Rightarrow> sim_loop body m (i + int k) s')"
proof (induction k arbitrary: i s)
  case 0
  then show ?case by simp
next
  case (Suc k)
  show ?case
  proof (cases "body i s")
    case (Continue s1)
    have e: "i + int (Suc k) = i + 1 + int k" by simp
    show ?thesis unfolding e using Continue Suc.IH[of "i + 1" s1] by simp
  qed simp_all
qed

lemma sim_loop_Suc_end:
  "sim_loop body (Suc k) i s =
     (case sim_loop body k i s of
        Return t \<Rightarrow> Return t
      | UndefinedBehaviour \<Rightarrow> UndefinedBehaviour
      | Continue s' \<Rightarrow> body (i + int k) s')"
proof -
  have "sim_loop body (Suc k) i s = sim_loop body (k + 1) i s" by simp
  also have "\<dots> = (case sim_loop body k i s of
        Return t \<Rightarrow> Return t
      | UndefinedBehaviour \<Rightarrow> UndefinedBehaviour
      | Continue s' \<Rightarrow> sim_loop body 1 (i + int k) s')"
    by (rule sim_loop_add)
  also have "\<dots> = (case sim_loop body k i s of
        Return t \<Rightarrow> Return t
      | UndefinedBehaviour \<Rightarrow> UndefinedBehaviour
      | Continue s' \<Rightarrow> body (i + int k) s')"
    by (auto split: flow.splits)
  finally show ?thesis .
qed

lemma sim_loop_stops:
  assumes "sim_loop body n i s = r" and "\<forall>s'. r \<noteq> Continue s'"
  shows "\<exists>k s'. k < n \<and> sim_loop body k i s = Continue s' \<and> body (i + int k) s' = r"
  using assms
proof (induction n)
  case 0
  then show ?case by auto
next
  case (Suc n)
  show ?case
  proof (cases "sim_loop body n i s")
    case (Continue s')
    with Suc.prems have "body (i + int n) s' = r" by (simp only: sim_loop_Suc_end flow.case)
    with Continue show ?thesis by blast
  next
    case (Return t)
    with Suc.prems have "sim_loop body n i s = r" by (simp only: sim_loop_Suc_end flow.case)
    from Suc.IH[OF this Suc.prems(2)] show ?thesis using less_Suc_eq by blast
  next
    case UndefinedBehaviour
    with Suc.prems have "sim_loop body n i s = r" by (simp only: sim_loop_Suc_end flow.case)
    from Suc.IH[OF this Suc.prems(2)] show ?thesis using less_Suc_eq by blast
  qed
qed

lemma sim_loop_prefix_Continue:
  assumes "sim_loop body n i s = Continue s'" and "k \<le> n"
  shows "\<exists>s''. sim_loop body k i s = Continue s''"
proof -
  from assms(2) obtain m where n: "n = k + m" using le_Suc_ex by blast
  from assms(1) show ?thesis unfolding n sim_loop_add by (cases "sim_loop body k i s") simp_all
qed

lemma sim_loop_first_stop:
  assumes "k < n" and "sim_loop body k i s = Continue s'" and "body (i + int k) s' = r"
    and "\<forall>s''. r \<noteq> Continue s''"
  shows "sim_loop body n i s = r"
proof -
  from assms(1) obtain m where n: "n = Suc k + m" using less_iff_Suc_add by auto
  have "sim_loop body (Suc k) i s = r" using assms(2,3) by (simp only: sim_loop_Suc_end flow.case)
  then show ?thesis unfolding n sim_loop_add using assms(4) by (cases r) simp_all
qed

text \<open>What one pass leaves of the trajectory.\<close>

lemma update_distances_Return:
  "update_distances p ic s = Return t \<longleftrightarrow>
     (ic \<le> goal_dist s \<or> ic \<le> path_dist s) \<and> t = (traj s)\<lparr>cost := - 2\<rparr>"
  by (auto simp: update_distances_def Let_def)

lemma update_distances_not_undefined: "update_distances p ic s \<noteq> UndefinedBehaviour"
  by (simp add: update_distances_def Let_def)

lemma headingDiff_defined: "global_plan p \<noteq> [] \<Longrightarrow> headingDiff p x y h \<noteq> None"
  by (simp add: headingDiff_def Let_def split: prod.splits)

lemma score_point_defined:
  assumes "global_plan p \<noteq> [] \<or> (\<not> simple_attractor p \<and> \<not> heading_scoring p)"
  shows "score_point p ic ns i cx cy s \<noteq> UndefinedBehaviour"
proof (cases "global_plan p = []")
  case True
  with assms show ?thesis
    by (simp add: score_point_def update_distances_not_undefined)
next
  case False
  then obtain h g d where "headingDiff p (x_i s) (y_i s) (theta_i s) = Some (h, g, d)"
    using headingDiff_defined[OF False, of "x_i s" "y_i s" "theta_i s"] by (metis option.exhaust prod_cases3)
  with False show ?thesis
    by (auto simp: score_point_def update_distances_not_undefined Let_def split: list.splits)
qed

lemma sim_step_defined:
  assumes "global_plan p \<noteq> [] \<or> (\<not> simple_attractor p \<and> \<not> heading_scoring p)"
  shows "sim_step p a b c d e f ic ns dt i s \<noteq> UndefinedBehaviour"
  using score_point_defined[OF assms]
  by (auto simp: sim_step_def Let_def split: option.splits flow.splits)

lemma sim_loop_defined:
  assumes "\<And>i s. body i s \<noteq> UndefinedBehaviour"
  shows "sim_loop body n i s \<noteq> UndefinedBehaviour"
proof (induction n arbitrary: i s)
  case 0
  then show ?case by simp
next
  case (Suc n)
  then show ?case using assms[of i s] by (cases "body i s") simp_all
qed


lemma update_distances_Continue:
  assumes "\<not> (ic \<le> goal_dist s \<or> ic \<le> path_dist s)"
  shows "\<exists>s'. update_distances p ic s = Continue s'
     \<and> x_i s' = x_i s \<and> y_i s' = y_i s \<and> theta_i s' = theta_i s
     \<and> points (traj s') = points (traj s) \<and> cost (traj s') = cost (traj s)
     \<and> xv (traj s') = xv (traj s) \<and> yv (traj s') = yv (traj s)
     \<and> thetav (traj s') = thetav (traj s)"
  using assms by (simp add: update_distances_def Let_def)

lemma score_point_failure:
  assumes "no_clear_path p ic ns i s cx cy" and "x_i s1 = x_i s" "y_i s1 = y_i s"
    "theta_i s1 = theta_i s" "traj s1 = traj s"
  shows "score_point p ic ns i cx cy s1 = Return ((traj s)\<lparr>cost := - 2\<rparr>)"
  using assms
  by (auto simp: no_clear_path_def score_point_def update_distances_def Let_def
      split: option.splits if_splits)

lemma score_point_passes:
  assumes "\<not> no_clear_path p ic ns i s cx cy"
    and "global_plan p \<noteq> [] \<or> (\<not> simple_attractor p \<and> \<not> heading_scoring p)"
    and "x_i s1 = x_i s" "y_i s1 = y_i s" "theta_i s1 = theta_i s"
  shows "\<exists>s'. score_point p ic ns i cx cy s1 = Continue s'
     \<and> x_i s' = x_i s1 \<and> y_i s' = y_i s1 \<and> theta_i s' = theta_i s1
     \<and> points (traj s') = points (traj s1) \<and> cost (traj s') = cost (traj s1)
     \<and> xv (traj s') = xv (traj s1) \<and> yv (traj s') = yv (traj s1)
     \<and> thetav (traj s') = thetav (traj s1)"
proof (cases "simple_attractor p")
  case True
  with assms(2) show ?thesis
    by (cases "global_plan p") (simp_all add: score_point_def Let_def)
next
  case sa: False
  show ?thesis
  proof (cases "heading_scoring p")
    case False
    with sa assms(1) show ?thesis
      using update_distances_Continue[of ic
          "s1\<lparr>path_dist := target_dist (path_map p) cx cy,
              goal_dist := target_dist (goal_map p) cx cy\<rparr>" p]
      by (simp add: score_point_def no_clear_path_def)
  next
    case hs: True
    show ?thesis
    proof (cases "i = ns - 1")
      case False
      with sa hs show ?thesis by (simp add: score_point_def)
    next
      case True
      from hs assms(2) have "global_plan p \<noteq> []" by auto
      then obtain h g d where hd: "headingDiff p (x_i s) (y_i s) (theta_i s) = Some (h, g, d)"
        using headingDiff_defined[of p "x_i s" "y_i s" "theta_i s"]
        by (metis option.exhaust prod_cases3)
      with sa hs True assms(1) have "\<not> (ic \<le> g \<or> ic \<le> d)"
        by (simp add: no_clear_path_def)
      then show ?thesis
        using update_distances_Continue[of ic
            "s1\<lparr>heading_diff := h, goal_dist := g, path_dist := d\<rparr>" p] sa hs True hd assms(3-5)
        by (simp add: score_point_def)
    qed
  qed
qed

lemma sim_step_failure:
  assumes "failure p ic ns i s = Some cs"
  shows "sim_step p a b c d e f ic ns dt i s = Return ((traj s)\<lparr>cost := sentinel cs\<rparr>)"
proof (cases "worldToMap (costmap p) (x_i s) (y_i s)")
  case None
  with assms show ?thesis by (auto simp: failure_def sim_step_def sentinel_def)
next
  case (Some cell)
  obtain cx cy where cell: "cell = (cx, cy)" by (cases cell)
  show ?thesis
  proof (cases "footprintCost p (x_i s) (y_i s) (theta_i s) < 0")
    case True
    with assms Some cell show ?thesis by (auto simp: failure_def sim_step_def sentinel_def)
  next
    case False
    with assms Some cell have n: "no_clear_path p ic ns i s cx cy" and cs: "cs = NoClearPath"
      by (auto simp: failure_def split: if_splits)
    show ?thesis
      using False Some cell cs
      by (simp add: sim_step_def Let_def sentinel_def score_point_failure[OF n])
  qed
qed

lemma sim_step_passes:
  assumes "failure p ic ns i s = None"
    and "global_plan p \<noteq> [] \<or> (\<not> simple_attractor p \<and> \<not> heading_scoring p)"
  shows "\<exists>s'. sim_step p a b c d e f ic ns dt i s = Continue s'
     \<and> points (traj s') = points (traj s) @ [(x_i s, y_i s, theta_i s)]
     \<and> cost (traj s') = cost (traj s)
     \<and> xv (traj s') = xv (traj s) \<and> yv (traj s') = yv (traj s)
     \<and> thetav (traj s') = thetav (traj s)"
proof -
  from assms(1) obtain cx cy where w: "worldToMap (costmap p) (x_i s) (y_i s) = Some (cx, cy)"
    and fp: "\<not> footprintCost p (x_i s) (y_i s) (theta_i s) < 0"
    and n: "\<not> no_clear_path p ic ns i s cx cy"
    by (auto simp: failure_def split: option.splits if_splits)
  let ?s1 = "s\<lparr>occ_cost := max (max (occ_cost s) (footprintCost p (x_i s) (y_i s) (theta_i s)))
                                (real (getCost (costmap p) cx cy))\<rparr>"
  from score_point_passes[OF n assms(2), of ?s1]
  obtain s2 where s2: "score_point p ic ns i cx cy ?s1 = Continue s2"
    "x_i s2 = x_i s" "y_i s2 = y_i s" "theta_i s2 = theta_i s"
    "points (traj s2) = points (traj s)" "cost (traj s2) = cost (traj s)"
    "xv (traj s2) = xv (traj s)" "yv (traj s2) = yv (traj s)" "thetav (traj s2) = thetav (traj s)"
    by auto
  show ?thesis
    using w fp s2 by (simp add: sim_step_def Let_def advance_def)
qed


lemma sim_step_Continue_failure:
  assumes "sim_step p a b c d e f ic ns dt i s = Continue s'"
  shows "failure p ic ns i s = None"
proof (cases "failure p ic ns i s")
  case (Some cs)
  from sim_step_failure[OF this, of a b c d e f dt] assms show ?thesis by simp
qed simp

lemma passes_invariant:
  assumes ok: "global_plan p \<noteq> [] \<or> (\<not> simple_attractor p \<and> \<not> heading_scoring p)"
    and "sim_loop (sim_step p a b c d e f ic ns dt) k i s = Continue s'"
  shows "length (points (traj s')) = length (points (traj s)) + k
     \<and> cost (traj s') = cost (traj s)
     \<and> xv (traj s') = xv (traj s) \<and> yv (traj s') = yv (traj s)
     \<and> thetav (traj s') = thetav (traj s)
     \<and> (\<forall>j<k. \<exists>sj. sim_loop (sim_step p a b c d e f ic ns dt) j i s = Continue sj
                  \<and> failure p ic ns (i + int j) sj = None)"
  using assms(2)
proof (induction k arbitrary: s')
  case 0
  then show ?case by simp
next
  case (Suc k)
  let ?body = "sim_step p a b c d e f ic ns dt"
  from sim_loop_prefix_Continue[OF Suc.prems, of k]
  obtain sk where sk: "sim_loop ?body k i s = Continue sk" by auto
  with Suc.prems have step: "?body (i + int k) sk = Continue s'"
    by (simp only: sim_loop_Suc_end flow.case)
  note f = sim_step_Continue_failure[OF step]
  from sim_step_passes[OF f ok, of a b c d e f dt] step
  have s': "points (traj s') = points (traj sk) @ [(x_i sk, y_i sk, theta_i sk)]"
    "cost (traj s') = cost (traj sk)" "xv (traj s') = xv (traj sk)"
    "yv (traj s') = yv (traj sk)" "thetav (traj s') = thetav (traj sk)"
    by auto
  from Suc.IH[OF sk] s' sk f show ?case
    by (auto simp: less_Suc_eq)
qed

lemma generateTrajectory_after_passes:
  "generateTrajectory p x y theta vx vy vtheta vx_samp vy_samp vtheta_samp
       acc_x acc_y acc_theta impossible_cost t =
     (case after_passes p x y theta vx vy vtheta vx_samp vy_samp vtheta_samp
             acc_x acc_y acc_theta impossible_cost t
             (nat (num_steps_of p vx_samp vy_samp vtheta_samp)) of
        Return t' \<Rightarrow> Some t'
      | UndefinedBehaviour \<Rightarrow> None
      | Continue s \<Rightarrow>
          Some ((traj s)\<lparr>cost := final_cost p s, goal_cost_traj := goal_dist s * gdist_scale p\<rparr>))"
  by (simp add: generateTrajectory_def after_passes_def Let_def)

lemma sentinel_distinct: "inj sentinel" "sentinel c < 0"
proof -
  show "inj sentinel"
  proof (rule injI)
    fix a b assume "sentinel a = sentinel b"
    then show "a = b" by (cases a; cases b) (simp_all add: sentinel_def)
  qed
  show "sentinel c < 0" by (cases c) (simp_all add: sentinel_def)
qed

text \<open>
  C4. \<^verbatim>\<open>generateTrajectory\<close> always hands back a trajectory (on a plan that is not empty,
  or with neither the simple attractor nor heading scoring, which are the two readers of
  the plan's last pose). Either no pass of the loop fails, every pass goes through, the
  trajectory holds one point for each pass and the cost is the weighted sum; or there is
  a first pass \<open>k\<close> that fails, none before it does, the trajectory holds the \<open>k\<close> points
  recorded so far and its cost is the sentinel of the cause of that pass. A pass that
  fails while the loop is still running ends the function there: the result is the
  trajectory as it stands with the sentinel of the cause as its cost. A pass fails when
  the pose is off the map (\<open>-4\<close>), else when the footprint cost is negative (\<open>-5\<close>), else
  when a distance that is read there is not below \<^verbatim>\<open>impossible_cost\<close> (\<open>-2\<close>). The three
  sentinels are negative and pairwise different.
\<close>

theorem generateTrajectory_failure_sentinels:
  assumes "global_plan p \<noteq> [] \<or> (\<not> simple_attractor p \<and> \<not> heading_scoring p)"
  shows "(\<exists>t'. generateTrajectory p x y theta vx vy vtheta vx_samp vy_samp vtheta_samp
                 acc_x acc_y acc_theta impossible_cost t = Some t'
           \<and> ((\<exists>s. after_passes p x y theta vx vy vtheta vx_samp vy_samp vtheta_samp
                       acc_x acc_y acc_theta impossible_cost t
                       (nat (num_steps_of p vx_samp vy_samp vtheta_samp)) = Continue s
                    \<and> (\<forall>j<nat (num_steps_of p vx_samp vy_samp vtheta_samp).
                          \<exists>sj. after_passes p x y theta vx vy vtheta vx_samp vy_samp
                                 vtheta_samp acc_x acc_y acc_theta impossible_cost t j
                               = Continue sj
                             \<and> failure p impossible_cost
                                 (num_steps_of p vx_samp vy_samp vtheta_samp) (int j) sj
                               = None)
                    \<and> cost t' = final_cost p s
                    \<and> length (points t') = nat (num_steps_of p vx_samp vy_samp vtheta_samp))
               \<or> (\<exists>k s c. k < nat (num_steps_of p vx_samp vy_samp vtheta_samp)
                    \<and> after_passes p x y theta vx vy vtheta vx_samp vy_samp vtheta_samp
                         acc_x acc_y acc_theta impossible_cost t k = Continue s
                    \<and> failure p impossible_cost (num_steps_of p vx_samp vy_samp vtheta_samp)
                         (int k) s = Some c
                    \<and> (\<forall>j<k. \<exists>sj. after_passes p x y theta vx vy vtheta vx_samp vy_samp
                                      vtheta_samp acc_x acc_y acc_theta impossible_cost t j
                                    = Continue sj
                                  \<and> failure p impossible_cost
                                      (num_steps_of p vx_samp vy_samp vtheta_samp) (int j) sj
                                    = None)
                    \<and> cost t' = sentinel c \<and> length (points t') = k)))
         \<and> (\<forall>k s c. k < nat (num_steps_of p vx_samp vy_samp vtheta_samp)
               \<and> after_passes p x y theta vx vy vtheta vx_samp vy_samp vtheta_samp
                    acc_x acc_y acc_theta impossible_cost t k = Continue s
               \<and> failure p impossible_cost (num_steps_of p vx_samp vy_samp vtheta_samp)
                    (int k) s = Some c
               \<longrightarrow> generateTrajectory p x y theta vx vy vtheta vx_samp vy_samp vtheta_samp
                     acc_x acc_y acc_theta impossible_cost t
                   = Some ((traj s)\<lparr>cost := sentinel c\<rparr>))
         \<and> failure p impossible_cost num_steps i s0
             = (case worldToMap (costmap p) (x_i s0) (y_i s0) of
                  None \<Rightarrow> Some OffMap
                | Some (cell_x, cell_y) \<Rightarrow>
                    if footprintCost p (x_i s0) (y_i s0) (theta_i s0) < 0 then Some Collision
                    else if no_clear_path p impossible_cost num_steps i s0 cell_x cell_y
                    then Some NoClearPath else None)
         \<and> sentinel OffMap = - 4 \<and> sentinel Collision = - 5 \<and> sentinel NoClearPath = - 2
         \<and> inj sentinel \<and> (\<forall>c. sentinel c < 0)"
proof -
  let ?n = "num_steps_of p vx_samp vy_samp vtheta_samp"
  let ?body = "sim_step p vx_samp vy_samp vtheta_samp acc_x acc_y acc_theta impossible_cost
                 ?n (sim_time p / real_of_int ?n)"
  let ?s0 = "sim_init x y theta vx vy vtheta vx_samp vy_samp vtheta_samp t"
  let ?gen = "generateTrajectory p x y theta vx vy vtheta vx_samp vy_samp vtheta_samp
                 acc_x acc_y acc_theta impossible_cost t"
  have ap: "after_passes p x y theta vx vy vtheta vx_samp vy_samp vtheta_samp
              acc_x acc_y acc_theta impossible_cost t k = sim_loop ?body k 0 ?s0" for k
    by (simp add: after_passes_def Let_def)
  have p0: "points (traj ?s0) = []" by (simp add: sim_init_def)
  have first: "\<exists>t'. ?gen = Some t'
           \<and> ((\<exists>s. sim_loop ?body (nat ?n) 0 ?s0 = Continue s
                    \<and> (\<forall>j<nat ?n. \<exists>sj. sim_loop ?body j 0 ?s0 = Continue sj
                             \<and> failure p impossible_cost ?n (int j) sj = None)
                    \<and> cost t' = final_cost p s
                    \<and> length (points t') = nat ?n)
               \<or> (\<exists>k s c. k < nat ?n
                    \<and> sim_loop ?body k 0 ?s0 = Continue s
                    \<and> failure p impossible_cost ?n (int k) s = Some c
                    \<and> (\<forall>j<k. \<exists>sj. sim_loop ?body j 0 ?s0 = Continue sj
                                  \<and> failure p impossible_cost ?n (int j) sj = None)
                    \<and> cost t' = sentinel c \<and> length (points t') = k))"
  proof (cases "sim_loop ?body (nat ?n) 0 ?s0")
    case (Continue s)
    from passes_invariant[OF assms Continue] p0
    have len: "length (points (traj s)) = nat ?n"
      and pre: "\<forall>j<nat ?n. \<exists>sj. sim_loop ?body j 0 ?s0 = Continue sj
                  \<and> failure p impossible_cost ?n (int j) sj = None"
      by auto
    have g: "?gen = Some ((traj s)\<lparr>cost := final_cost p s,
                                    goal_cost_traj := goal_dist s * gdist_scale p\<rparr>)"
      using Continue by (simp add: generateTrajectory_after_passes ap)
    show ?thesis unfolding g using Continue len pre by simp
  next
    case UndefinedBehaviour
    with sim_loop_defined[of ?body "nat ?n" 0 ?s0] sim_step_defined[OF assms]
    show ?thesis by blast
  next
    case (Return t')
    from sim_loop_stops[OF Return] obtain k s where k: "k < nat ?n"
      and s: "sim_loop ?body k 0 ?s0 = Continue s" and st: "?body (0 + int k) s = Return t'"
      by auto
    obtain c where c: "failure p impossible_cost ?n (int k) s = Some c"
    proof (cases "failure p impossible_cost ?n (int k) s")
      case None
      from sim_step_passes[OF None assms, of vx_samp vy_samp vtheta_samp acc_x acc_y acc_theta
          "sim_time p / real_of_int ?n"] st
      show ?thesis by auto
    qed blast
    from sim_step_failure[OF c, of vx_samp vy_samp vtheta_samp acc_x acc_y acc_theta
        "sim_time p / real_of_int ?n"] st
    have t': "t' = (traj s)\<lparr>cost := sentinel c\<rparr>" by simp
    from passes_invariant[OF assms s] p0
    have len: "length (points (traj s)) = k"
      and pre: "\<forall>j<k. \<exists>sj. sim_loop ?body j 0 ?s0 = Continue sj
                  \<and> failure p impossible_cost ?n (int j) sj = None"
      by auto
    have "\<exists>k s c. k < nat ?n \<and> sim_loop ?body k 0 ?s0 = Continue s
            \<and> failure p impossible_cost ?n (int k) s = Some c
            \<and> (\<forall>j<k. \<exists>sj. sim_loop ?body j 0 ?s0 = Continue sj
                  \<and> failure p impossible_cost ?n (int j) sj = None)
            \<and> cost t' = sentinel c \<and> length (points t') = k"
      using k s c pre len t' by (intro exI[of _ k] exI[of _ s] exI[of _ c]) simp
    moreover have "?gen = Some t'"
      using Return by (simp add: generateTrajectory_after_passes ap)
    ultimately show ?thesis by blast
  qed
  have second: "?gen = Some ((traj s)\<lparr>cost := sentinel c\<rparr>)"
    if k: "k < nat ?n" and s: "sim_loop ?body k 0 ?s0 = Continue s"
      and c: "failure p impossible_cost ?n (int k) s = Some c" for k s c
  proof -
    have st: "?body (0 + int k) s = Return ((traj s)\<lparr>cost := sentinel c\<rparr>)"
      using sim_step_failure[OF c, of vx_samp vy_samp vtheta_samp acc_x acc_y acc_theta
        "sim_time p / real_of_int ?n"] by simp
    have "sim_loop ?body (nat ?n) 0 ?s0 = Return ((traj s)\<lparr>cost := sentinel c\<rparr>)"
      by (rule sim_loop_first_stop[OF k s st]) simp
    then show ?thesis by (simp add: generateTrajectory_after_passes ap)
  qed
  have third: "failure p impossible_cost num_steps i s0
             = (case worldToMap (costmap p) (x_i s0) (y_i s0) of
                  None \<Rightarrow> Some OffMap
                | Some (cell_x, cell_y) \<Rightarrow>
                    if footprintCost p (x_i s0) (y_i s0) (theta_i s0) < 0 then Some Collision
                    else if no_clear_path p impossible_cost num_steps i s0 cell_x cell_y
                    then Some NoClearPath else None)"
    by (simp add: failure_def)
  have vals: "sentinel OffMap = - 4" "sentinel Collision = - 5" "sentinel NoClearPath = - 2"
    by (simp_all add: sentinel_def)
  from first second third vals sentinel_distinct show ?thesis
    unfolding ap by blast
qed


subsection \<open>The buffers and the sweeps\<close>


















lemma createTrajectories_selected:
  assumes "search p fresh jx jy x y theta vx vy vtheta ax ay ath = Some (ref, bs)"
    and "0 \<le> cost (deref bs (best_traj bs))"
  shows "createTrajectories p fresh jx jy x y theta vx vy vtheta ax ay ath
     = Some (deref bs (best_traj bs),
             keep_buffers
               (reset_escape
                  (reset_oscillation (mark_oscillation p (deref bs (best_traj bs)) x y) x y)
                  x y theta) bs)"
  using assms by (simp add: createTrajectories_def)

lemma createTrajectories_backup:
  assumes "search p fresh jx jy x y theta vx vy vtheta ax ay ath = Some (ref, bs)"
    and "cost (deref bs (best_traj bs)) < 0"
  shows "createTrajectories p fresh jx jy x y theta vx vy vtheta ax ay ath
     = backup_tier p (sampler p x y theta vx vy vtheta ax ay ath) bs x y theta"
  using assms by (simp add: createTrajectories_def)















subsection \<open>The oscillation flags after a selection\<close>

lemma hypot_zero_right: "hypot a 0 = \<bar>a\<bar>"
  by (simp add: hypot_def)


lemma hypot_nonneg: "0 \<le> hypot a b"
  by (simp add: hypot_def)

lemma flags_keep_buffers: "flags (keep_buffers p b) = flags p"
  "prev_x (keep_buffers p b) = prev_x p" "prev_y (keep_buffers p b) = prev_y p"
  by (simp_all add: flags_def keep_buffers_def)

lemma flags_reset_escape: "flags (reset_escape p x y theta) = flags p"
  "prev_x (reset_escape p x y theta) = prev_x p" "prev_y (reset_escape p x y theta) = prev_y p"
  by (simp_all add: flags_def reset_escape_def Let_def)

lemma flags_reset_oscillation:
  "flags (reset_oscillation p x y) =
     (if oscillation_reset_dist p < hypot (x - prev_x p) (y - prev_y p)
      then replicate 8 False else flags p)"
  "prev_x (reset_oscillation p x y) = prev_x p" "prev_y (reset_oscillation p x y) = prev_y p"
  by (simp_all add: flags_def reset_oscillation_def Let_def eval_nat_numeral)

lemma mark_oscillation_fields:
  "prev_x (mark_oscillation p t x y) = (if \<not> 0 < xv t then x else prev_x p)"
  "prev_y (mark_oscillation p t x y) = (if \<not> 0 < xv t then y else prev_y p)"
  "oscillation_reset_dist (mark_oscillation p t x y) = oscillation_reset_dist p"
  by (simp_all add: mark_oscillation_def Let_def)

lemma flags_mark_oscillation:
  "flags (mark_oscillation p t x y) =
     (if 0 < xv t then flags p
      else if thetav t < 0 then
        [rotating_left p, True, strafe_left p, strafe_right p,
         stuck_left p, stuck_right p \<or> rotating_right p, stuck_left_strafe p, stuck_right_strafe p]
      else if 0 < thetav t then
        [True, rotating_right p, strafe_left p, strafe_right p,
         stuck_left p \<or> rotating_left p, stuck_right p, stuck_left_strafe p, stuck_right_strafe p]
      else if 0 < yv t then
        [rotating_left p, rotating_right p, strafe_left p, True,
         stuck_left p, stuck_right p, stuck_left_strafe p, stuck_right_strafe p \<or> strafe_right p]
      else if yv t < 0 then
        [rotating_left p, rotating_right p, True, strafe_right p,
         stuck_left p, stuck_right p, stuck_left_strafe p \<or> strafe_left p, stuck_right_strafe p]
      else flags p)"
  by (simp add: flags_def mark_oscillation_def Let_def)

lemma flags_after_selection:
  "flags (keep_buffers (reset_escape (reset_oscillation (mark_oscillation p t x y) x y) x y theta) b)
     = (if oscillation_reset_dist p
            < (if 0 < xv t then hypot (x - prev_x p) (y - prev_y p) else 0)
        then replicate 8 False else flags (mark_oscillation p t x y))"
  by (simp add: flags_keep_buffers flags_reset_escape flags_reset_oscillation
      mark_oscillation_fields hypot_zero_right)

lemma prev_after_selection:
  "prev_x (keep_buffers (reset_escape (reset_oscillation (mark_oscillation p t x y) x y) x y theta) b)
     = (if \<not> 0 < xv t then x else prev_x p)"
  "prev_y (keep_buffers (reset_escape (reset_oscillation (mark_oscillation p t x y) x y) x y theta) b)
     = (if \<not> 0 < xv t then y else prev_y p)"
  by (simp_all add: flags_keep_buffers flags_reset_escape flags_reset_oscillation
      mark_oscillation_fields)


text \<open>
  C5, as the code has it. Let the sampling tiers end on a trajectory \<open>t\<close> of non-negative
  cost; \<^verbatim>\<open>createTrajectories\<close> returns it. If its forward velocity is not positive, the
  current position becomes the anchor, and, when \<^verbatim>\<open>oscillation_reset_dist_\<close> is not
  negative, the committed flag of its direction is set and the stuck flag of that
  direction is raised if the committed flag was set before: rotating left for a positive
  angular velocity, rotating right for a negative one, and with zero angular velocity
  strafe right for a positive lateral velocity, strafe left for a negative one. The eight
  flags are cleared when \<^verbatim>\<open>oscillation_reset_dist_\<close> is below the distance to the anchor as
  it stands after that step: zero for a trajectory that does not move forward, the
  distance to the anchor of earlier calls for one that does. Otherwise no flag that was
  set is cleared.
\<close>

theorem oscillation_flags_after_selection:
  assumes s: "search p fresh junk_x junk_y x y theta vx vy vtheta acc_x acc_y acc_theta
                = Some (current_pos_traj, bs)"
    and t: "t = deref bs (best_traj bs)" and c: "0 \<le> cost t"
  shows "\<exists>p'. createTrajectories p fresh junk_x junk_y x y theta vx vy vtheta acc_x acc_y acc_theta
                = Some (t, p')
     \<and> (\<not> 0 < xv t \<longrightarrow> prev_x p' = x \<and> prev_y p' = y)
     \<and> (\<not> 0 < xv t \<and> 0 \<le> oscillation_reset_dist p \<longrightarrow>
           (0 < thetav t \<longrightarrow>
              rotating_left p' \<and> (stuck_left p' \<longleftrightarrow> stuck_left p \<or> rotating_left p))
         \<and> (thetav t < 0 \<longrightarrow>
              rotating_right p' \<and> (stuck_right p' \<longleftrightarrow> stuck_right p \<or> rotating_right p))
         \<and> (thetav t = 0 \<and> 0 < yv t \<longrightarrow>
              strafe_right p'
              \<and> (stuck_right_strafe p' \<longleftrightarrow> stuck_right_strafe p \<or> strafe_right p))
         \<and> (thetav t = 0 \<and> yv t < 0 \<longrightarrow>
              strafe_left p'
              \<and> (stuck_left_strafe p' \<longleftrightarrow> stuck_left_strafe p \<or> strafe_left p)))
     \<and> (oscillation_reset_dist p
           < (if 0 < xv t then hypot (x - prev_x p) (y - prev_y p) else 0) \<longrightarrow>
         flags p' = replicate 8 False)
     \<and> (\<not> oscillation_reset_dist p
             < (if 0 < xv t then hypot (x - prev_x p) (y - prev_y p) else 0) \<longrightarrow>
         list_all2 (\<longrightarrow>) (flags p) (flags p'))"
proof -
  let ?p' = "keep_buffers (reset_escape (reset_oscillation (mark_oscillation p t x y) x y)
               x y theta) bs"
  have ct: "createTrajectories p fresh junk_x junk_y x y theta vx vy vtheta acc_x acc_y acc_theta
              = Some (t, ?p')"
    using createTrajectories_selected[OF s] c t by simp
  have prev: "\<not> 0 < xv t \<longrightarrow> prev_x ?p' = x \<and> prev_y ?p' = y"
    by (simp add: prev_after_selection)
  note F = flags_after_selection[of p t x y theta bs]
  have marks: "\<not> 0 < xv t \<and> 0 \<le> oscillation_reset_dist p \<longrightarrow>
           (0 < thetav t \<longrightarrow>
              rotating_left ?p' \<and> (stuck_left ?p' \<longleftrightarrow> stuck_left p \<or> rotating_left p))
         \<and> (thetav t < 0 \<longrightarrow>
              rotating_right ?p' \<and> (stuck_right ?p' \<longleftrightarrow> stuck_right p \<or> rotating_right p))
         \<and> (thetav t = 0 \<and> 0 < yv t \<longrightarrow>
              strafe_right ?p'
              \<and> (stuck_right_strafe ?p' \<longleftrightarrow> stuck_right_strafe p \<or> strafe_right p))
         \<and> (thetav t = 0 \<and> yv t < 0 \<longrightarrow>
              strafe_left ?p'
              \<and> (stuck_left_strafe ?p' \<longleftrightarrow> stuck_left_strafe p \<or> strafe_left p))"
  proof (intro impI, elim conjE)
    assume x: "\<not> 0 < xv t" and d: "0 \<le> oscillation_reset_dist p"
    from F x d have "flags ?p' = flags (mark_oscillation p t x y)" by simp
    then have "[rotating_left ?p', rotating_right ?p', strafe_left ?p', strafe_right ?p',
          stuck_left ?p', stuck_right ?p', stuck_left_strafe ?p', stuck_right_strafe ?p']
        = flags (mark_oscillation p t x y)"
      by (simp add: flags_def)
    then show "(0 < thetav t \<longrightarrow>
              rotating_left ?p' \<and> (stuck_left ?p' \<longleftrightarrow> stuck_left p \<or> rotating_left p))
         \<and> (thetav t < 0 \<longrightarrow>
              rotating_right ?p' \<and> (stuck_right ?p' \<longleftrightarrow> stuck_right p \<or> rotating_right p))
         \<and> (thetav t = 0 \<and> 0 < yv t \<longrightarrow>
              strafe_right ?p'
              \<and> (stuck_right_strafe ?p' \<longleftrightarrow> stuck_right_strafe p \<or> strafe_right p))
         \<and> (thetav t = 0 \<and> yv t < 0 \<longrightarrow>
              strafe_left ?p'
              \<and> (stuck_left_strafe ?p' \<longleftrightarrow> stuck_left_strafe p \<or> strafe_left p))"
      using x unfolding flags_mark_oscillation by (auto split: if_splits)
  qed
  have clear: "oscillation_reset_dist p
           < (if 0 < xv t then hypot (x - prev_x p) (y - prev_y p) else 0) \<longrightarrow>
         flags ?p' = replicate 8 False"
    using F by simp
  have keep: "\<not> oscillation_reset_dist p
             < (if 0 < xv t then hypot (x - prev_x p) (y - prev_y p) else 0) \<longrightarrow>
         list_all2 (\<longrightarrow>) (flags p) (flags ?p')"
  proof
    assume "\<not> oscillation_reset_dist p
             < (if 0 < xv t then hypot (x - prev_x p) (y - prev_y p) else 0)"
    with F have "flags ?p' = flags (mark_oscillation p t x y)" by simp
    then show "list_all2 (\<longrightarrow>) (flags p) (flags ?p')"
      unfolding flags_mark_oscillation by (simp add: flags_def)
  qed
  from ct prev marks clear keep show ?thesis by blast
qed

subsection \<open>The velocity limits in dynamic-window mode\<close>

text \<open>
  C3, as the code has it. With \<^verbatim>\<open>dwa_\<close> set, the theta window is the intersection of
  \<open>[min_vel_th, max_vel_th]\<close> with the interval reachable from \<open>vtheta\<close> in one control
  period. The upper x limit is the reachable upper end capped by the maximum speed, which
  itself is capped by \<open>final_goal_dist / sim_time\<close> when the final goal is valid, and then
  raised to \<open>min_vel_x\<close> at least; the lower x limit starts from the smaller of
  \<open>min_vel_x\<close> and the capped maximum. The x window is the intersection of
  \<open>[min_vel_x, max_vel_x]\<close> with the reachable interval when the goal is far enough not
  to cap the speed, \<open>min_vel_x \<le> max_vel_x\<close> and the reachable upper end is not below
  \<open>min_vel_x\<close>. The lower x limit is stated for a valid final goal position; without one
  the source reads a local that was never assigned. Division by \<open>sim_time = 0\<close> is left
  out, and so is the lateral window.
\<close>

theorem dynamic_window_limits:
  assumes "dwa p" and "sim_time p \<noteq> 0"
  shows "{l_min_vel_theta (velocity_limits p junk_x junk_y x y vx vy vtheta acc_x acc_y acc_theta)
          .. l_max_vel_theta (velocity_limits p junk_x junk_y x y vx vy vtheta acc_x acc_y acc_theta)}
       = {min_vel_th p .. max_vel_th p}
         \<inter> {vtheta - acc_theta * sim_period p .. vtheta + acc_theta * sim_period p}
     \<and> l_max_vel_x (velocity_limits p junk_x junk_y x y vx vy vtheta acc_x acc_y acc_theta)
       = max (min (if final_goal_position_valid p
                   then min (max_vel_x p)
                          (hypot (final_goal_x p - x) (final_goal_y p - y) / sim_time p)
                   else max_vel_x p)
                  (vx + acc_x * sim_period p))
             (min_vel_x p)
     \<and> (final_goal_position_valid p \<longrightarrow>
          l_min_vel_x (velocity_limits p junk_x junk_y x y vx vy vtheta acc_x acc_y acc_theta)
          = max (min (min_vel_x p)
                   (min (max_vel_x p)
                      (hypot (final_goal_x p - x) (final_goal_y p - y) / sim_time p)))
                (vx - acc_x * sim_period p))
     \<and> (final_goal_position_valid p
          \<and> max_vel_x p \<le> hypot (final_goal_x p - x) (final_goal_y p - y) / sim_time p
          \<and> min_vel_x p \<le> max_vel_x p \<and> min_vel_x p \<le> vx + acc_x * sim_period p \<longrightarrow>
          {l_min_vel_x (velocity_limits p junk_x junk_y x y vx vy vtheta acc_x acc_y acc_theta)
           .. l_max_vel_x (velocity_limits p junk_x junk_y x y vx vy vtheta acc_x acc_y acc_theta)}
          = {min_vel_x p .. max_vel_x p}
            \<inter> {vx - acc_x * sim_period p .. vx + acc_x * sim_period p})"
  using assms(1) by (auto simp: velocity_limits_def Let_def)

subsection \<open>The path-distance cap\<close>

lemma after_passes_Suc:
  "after_passes p x y theta vx vy vtheta vx_samp vy_samp vtheta_samp
       acc_x acc_y acc_theta impossible_cost t (Suc k) =
     (case after_passes p x y theta vx vy vtheta vx_samp vy_samp vtheta_samp
             acc_x acc_y acc_theta impossible_cost t k of
        Return t' \<Rightarrow> Return t'
      | UndefinedBehaviour \<Rightarrow> UndefinedBehaviour
      | Continue s \<Rightarrow>
          sim_step p vx_samp vy_samp vtheta_samp acc_x acc_y acc_theta impossible_cost
            (num_steps_of p vx_samp vy_samp vtheta_samp)
            (sim_time p / real_of_int (num_steps_of p vx_samp vy_samp vtheta_samp)) (int k) s)"
  unfolding after_passes_def Let_def by (simp only: sim_loop_Suc_end add_0)

lemma update_distances_result:
  "update_distances p ic s =
     (if ic \<le> goal_dist s \<or> ic \<le> path_dist s then Return ((traj s)\<lparr>cost := - 2\<rparr>)
      else Continue
        (s\<lparr>traj := (if meter_scoring p then (traj s)\<lparr>path_dist_traj := path_dist s\<rparr> else traj s),
           path_dist := (if 0 < path_distance_max p \<and> path_dist s \<le> path_distance_max p
                         then 0 else path_dist s),
           heading_diff := (if \<bar>heading_diff s\<bar> < 0.2 then 0 else heading_diff s)\<rparr>))"
  by (simp add: update_distances_def Let_def)

lemma advance_keeps:
  "path_dist (advance a b c d e f g s) = path_dist s"
  "goal_dist (advance a b c d e f g s) = goal_dist s"
  "occ_cost (advance a b c d e f g s) = occ_cost s"
  "heading_diff (advance a b c d e f g s) = heading_diff s"
  by (simp_all add: advance_def Let_def)

lemma sim_step_path_dist:
  assumes cell: "worldToMap (costmap p) (x_i s) (y_i s) = Some (cx, cy)"
    and rd: "path_distance_read p ns i s cx cy = Some d"
    and ok: "failure p ic ns i s = None"
  shows "\<exists>s'. sim_step p a b c e f g ic ns dt i s = Continue s'
     \<and> path_dist s' = (if 0 < path_distance_max p \<and> d \<le> path_distance_max p then 0 else d)"
proof -
  from rd have sa: "\<not> simple_attractor p"
    by (auto simp: path_distance_read_def split: if_splits)
  from ok cell have fp: "\<not> footprintCost p (x_i s) (y_i s) (theta_i s) < 0"
    and ncp: "\<not> no_clear_path p ic ns i s cx cy"
    by (auto simp: failure_def split: if_splits)
  let ?s1 = "s\<lparr>occ_cost := max (max (occ_cost s) (footprintCost p (x_i s) (y_i s) (theta_i s)))
                                (real (getCost (costmap p) cx cy))\<rparr>"
  have "\<exists>s2. score_point p ic ns i cx cy ?s1 = Continue s2
     \<and> path_dist s2 = (if 0 < path_distance_max p \<and> d \<le> path_distance_max p then 0 else d)"
  proof (cases "heading_scoring p")
    case False
    with rd sa have d: "d = target_dist (path_map p) cx cy"
      by (simp add: path_distance_read_def)
    from ncp sa False show ?thesis
      by (simp add: score_point_def no_clear_path_def update_distances_result d)
  next
    case True
    with rd sa obtain h g where i: "i = ns - 1"
      and hd: "headingDiff p (x_i s) (y_i s) (theta_i s) = Some (h, g, d)"
      by (auto simp: path_distance_read_def split: if_splits option.splits)
    from ncp sa True i hd show ?thesis
      by (simp add: score_point_def no_clear_path_def update_distances_result)
  qed
  then obtain s2 where "score_point p ic ns i cx cy ?s1 = Continue s2"
    "path_dist s2 = (if 0 < path_distance_max p \<and> d \<le> path_distance_max p then 0 else d)"
    by blast
  with cell fp show ?thesis
    by (simp add: sim_step_def Let_def advance_keeps)
qed

text \<open>
  C7, as the code has it. The cost after the loop is computed from the path distance of
  the last pass that updated it. If pass \<open>k\<close> is the last pass of the loop, it reads the
  path distance \<open>d\<close> at its point, the cap is positive, \<open>d\<close> is within the cap and the pass
  does not fail, then the loop ends with path distance zero, the path term of the cost
  is zero and the cost is the sum of the other terms. At every point where the distances
  are updated, the trajectory is given up exactly when the goal or the path distance is
  not below \<^verbatim>\<open>impossible_cost\<close>, whatever the cap; otherwise the goal distance is kept as
  read and the path distance is either kept as read or, within a positive cap, set to
  zero.
\<close>

theorem path_distance_cap_at_last_point:
  assumes k: "after_passes p x y theta vx vy vtheta vx_samp vy_samp vtheta_samp
                acc_x acc_y acc_theta impossible_cost t k = Continue s"
    and last: "Suc k = nat (num_steps_of p vx_samp vy_samp vtheta_samp)"
    and cell: "worldToMap (costmap p) (x_i s) (y_i s) = Some (cell_x, cell_y)"
    and rd: "path_distance_read p (num_steps_of p vx_samp vy_samp vtheta_samp) (int k) s
               cell_x cell_y = Some d"
    and cap: "0 < path_distance_max p" "d \<le> path_distance_max p"
    and ok: "failure p impossible_cost (num_steps_of p vx_samp vy_samp vtheta_samp) (int k) s
               = None"
  shows "(\<exists>s'. after_passes p x y theta vx vy vtheta vx_samp vy_samp vtheta_samp
                 acc_x acc_y acc_theta impossible_cost t (Suc k) = Continue s'
           \<and> path_dist s' = 0
           \<and> path_cost p (after_passes p x y theta vx vy vtheta vx_samp vy_samp vtheta_samp
                            acc_x acc_y acc_theta impossible_cost t (Suc k)) = Some 0
           \<and> generateTrajectory p x y theta vx vy vtheta vx_samp vy_samp vtheta_samp
                 acc_x acc_y acc_theta impossible_cost t
               = Some ((traj s')\<lparr>cost := final_cost p s',
                                 goal_cost_traj := goal_dist s' * gdist_scale p\<rparr>)
           \<and> final_cost p s'
               = goal_dist s' * gdist_scale p + occdist_scale p * occ_cost s'
                 + (if heading_scoring p then heading_diff s' * hdiff_scale p else 0))
     \<and> ((\<exists>r. update_distances p impossible_cost s0 = Return r)
           \<longleftrightarrow> impossible_cost \<le> goal_dist s0 \<or> impossible_cost \<le> path_dist s0)
     \<and> (\<not> (impossible_cost \<le> goal_dist s0 \<or> impossible_cost \<le> path_dist s0) \<longrightarrow>
          (\<exists>s1. update_distances p impossible_cost s0 = Continue s1
             \<and> goal_dist s1 = goal_dist s0
             \<and> path_dist s1 = (if 0 < path_distance_max p \<and> path_dist s0 \<le> path_distance_max p
                               then 0 else path_dist s0)))"
proof -
  let ?n = "num_steps_of p vx_samp vy_samp vtheta_samp"
  from sim_step_path_dist[OF cell rd ok, of vx_samp vy_samp vtheta_samp acc_x acc_y acc_theta
      "sim_time p / real_of_int ?n"] cap
  obtain s' where st: "sim_step p vx_samp vy_samp vtheta_samp acc_x acc_y acc_theta impossible_cost
      ?n (sim_time p / real_of_int ?n) (int k) s = Continue s'" and pd: "path_dist s' = 0"
    by auto
  have ap: "after_passes p x y theta vx vy vtheta vx_samp vy_samp vtheta_samp
                 acc_x acc_y acc_theta impossible_cost t (Suc k) = Continue s'"
    by (simp only: after_passes_Suc k st flow.case)
  have gen: "generateTrajectory p x y theta vx vy vtheta vx_samp vy_samp vtheta_samp
                 acc_x acc_y acc_theta impossible_cost t
               = Some ((traj s')\<lparr>cost := final_cost p s',
                                 goal_cost_traj := goal_dist s' * gdist_scale p\<rparr>)"
    using ap by (simp add: generateTrajectory_after_passes last[symmetric])
  have fc: "final_cost p s'
               = goal_dist s' * gdist_scale p + occdist_scale p * occ_cost s'
                 + (if heading_scoring p then heading_diff s' * hdiff_scale p else 0)"
    using pd by (simp add: final_cost_def)
  have pc: "path_cost p (after_passes p x y theta vx vy vtheta vx_samp vy_samp vtheta_samp
                            acc_x acc_y acc_theta impossible_cost t (Suc k)) = Some 0"
    using ap pd by (simp add: path_cost_def)
  have u1: "(\<exists>r. update_distances p impossible_cost s0 = Return r)
           \<longleftrightarrow> impossible_cost \<le> goal_dist s0 \<or> impossible_cost \<le> path_dist s0"
    by (simp add: update_distances_result)
  have u2: "\<not> (impossible_cost \<le> goal_dist s0 \<or> impossible_cost \<le> path_dist s0) \<longrightarrow>
          (\<exists>s1. update_distances p impossible_cost s0 = Continue s1
             \<and> goal_dist s1 = goal_dist s0
             \<and> path_dist s1 = (if 0 < path_distance_max p \<and> path_dist s0 \<le> path_distance_max p
                               then 0 else path_dist s0))"
    by (simp add: update_distances_result)
  from ap pd pc gen fc u1 u2 show ?thesis by blast
qed

subsection \<open>getLocalGoal\<close>

lemma goal_fold_mark:
  "goal_x (fold mark_within_robot cs m) = goal_x m"
  "goal_y (fold mark_within_robot cs m) = goal_y m"
  by (induction cs arbitrary: m) (simp_all add: mark_within_robot_def)

text \<open>
  C8. \<^verbatim>\<open>getLocalGoal\<close> returns the anchor fields of the path map. After the grids have
  been refreshed in \<^verbatim>\<open>findBestPath\<close>, that is what \<^verbatim>\<open>setTargetCells\<close> left in the path
  map, while the local goal has been set on the goal map by \<^verbatim>\<open>setLocalGoal\<close>. With the
  grid operations of the specification and a plan that ends at \<open>(3, 0)\<close>, the goal map's
  anchor is \<open>(3, 0)\<close> and \<^verbatim>\<open>getLocalGoal\<close> answers \<open>(0, 0)\<close>, the value the path map was
  constructed with.
\<close>

theorem getLocalGoal_reads_path_map:
  "getLocalGoal (refresh_grids ops p pos)
     = (goal_x (setTargetCells ops (costmap p) (global_plan p)
                  (fold mark_within_robot (getFootprintCells ops pos (costmap p))
                     (resetPathDist ops (path_map p)))),
        goal_y (setTargetCells ops (costmap p) (global_plan p)
                  (fold mark_within_robot (getFootprintCells ops pos (costmap p))
                     (resetPathDist ops (path_map p)))))
   \<and> goal_map (refresh_grids ops p pos)
     = setLocalGoal ops (costmap p) (global_plan p) (resetPathDist ops (goal_map p))
   \<and> getLocalGoal (refresh_grids spec_ops demo (0, 0, 0)) = (0, 0)
   \<and> goal_x (goal_map (refresh_grids spec_ops demo (0, 0, 0))) = 3
   \<and> goal_y (goal_map (refresh_grids spec_ops demo (0, 0, 0))) = 0"
  by (simp add: getLocalGoal_def refresh_grids_def Let_def spec_ops_def spec_setTargetCells_def
      spec_setLocalGoal_def spec_resetPathDist_def goal_fold_mark demo_def)

subsection \<open>reconfigure\<close>

text \<open>
  C9. \<^verbatim>\<open>reconfigure\<close> takes \<^verbatim>\<open>vy_samples\<close> from the configuration as it is, replaces a
  count of zero or less by one for x and for theta only, and issues one warning for each
  replacement. A configuration with \<open>vy_samples = 0\<close> leaves \<^verbatim>\<open>vy_samples_\<close> at \<open>0\<close>.
\<close>

theorem reconfigure_leaves_vy_samples:
  "vy_samples (fst (reconfigure read_y_vels p config)) = cfg_vy_samples config
   \<and> vx_samples (fst (reconfigure read_y_vels p config))
       = (if cfg_vx_samples config \<le> 0 then 1 else cfg_vx_samples config)
   \<and> vtheta_samples (fst (reconfigure read_y_vels p config))
       = (if cfg_vtheta_samples config \<le> 0 then 1 else cfg_vtheta_samples config)
   \<and> snd (reconfigure read_y_vels p config)
       = (if cfg_vx_samples config \<le> 0 then [NoSamplesX] else [])
         @ (if cfg_vtheta_samples config \<le> 0 then [NoSamplesTheta] else [])
   \<and> vy_samples (fst (reconfigure read_y_vels p (config\<lparr>cfg_vy_samples := 0\<rparr>))) = 0"
  by (simp add: reconfigure_def Let_def split: prod.splits)


section \<open>Computing with the demo planner\<close>

subsection \<open>What generateTrajectory reads of the planner\<close>

lemma headingDiff_env:
  assumes "global_plan q = global_plan p" "shortest_angular_distance q = shortest_angular_distance p"
  shows "headingDiff q = headingDiff p"
  by (intro ext) (simp only: headingDiff_def AngleDifference_def assms)

lemma sim_step_env:
  assumes "costmap q = costmap p" "world_model q = world_model p" "path_map q = path_map p"
    "goal_map q = goal_map p" "global_plan q = global_plan p"
    "shortest_angular_distance q = shortest_angular_distance p"
    "path_distance_max q = path_distance_max p" "heading_scoring q = heading_scoring p"
    "meter_scoring q = meter_scoring p" "simple_attractor q = simple_attractor p"
  shows "sim_step q = sim_step p"
  by (intro ext)
    (simp only: sim_step_def score_point_def update_distances_def footprintCost_def
      headingDiff_env[OF assms(5,6)] assms)

lemma generateTrajectory_env:
  assumes "costmap q = costmap p" "world_model q = world_model p" "path_map q = path_map p"
    "goal_map q = goal_map p" "global_plan q = global_plan p"
    "shortest_angular_distance q = shortest_angular_distance p"
    "path_distance_max q = path_distance_max p" "heading_scoring q = heading_scoring p"
    "meter_scoring q = meter_scoring p" "simple_attractor q = simple_attractor p"
    "sim_time q = sim_time p" "sim_granularity q = sim_granularity p"
    "angular_sim_granularity q = angular_sim_granularity p"
    "pdist_scale q = pdist_scale p" "gdist_scale q = gdist_scale p"
    "occdist_scale q = occdist_scale p" "hdiff_scale q = hdiff_scale p"
  shows "generateTrajectory q = generateTrajectory p"
  by (intro ext)
    (simp only: generateTrajectory_def num_steps_of_def final_cost_def
      sim_step_env[OF assms(1-10)] assms(8,11-17))

subsection \<open>The members of the demo planner, and its trajectories\<close>

lemma demo_fields:
  "target_dist (path_map demo) cx cy = (if cx = 0 then 5 else 1)"
  "obstacleCosts (path_map demo) = 100"
  "goal_x (path_map demo) = 0" "goal_y (path_map demo) = 0"
  "goal_x (goal_map demo) = 3" "goal_y (goal_map demo) = 0"
  "target_dist (goal_map demo) cx cy = (if cx = 0 then 1 else 5)"
  "worldToMap (costmap demo) wx wy = Some (if wx < - 0.1 then 0 else 1, 0)"
  "getCost (costmap demo) cx cy = 0"
  "world_model demo wx wy wth = (if wx < - 0.1 \<and> wth = 0 then - 1 else 0)"
  "global_plan demo = [\<lparr>position_x = 3, position_y = 0, yaw = 0\<rparr>]"
  "final_goal_x demo = 3" "final_goal_y demo = 0" "final_goal_position_valid demo"
  "sim_time demo = 1" "sim_granularity demo = 0.2" "angular_sim_granularity demo = 1"
  "vx_samples demo = 1" "vy_samples demo = 1" "vtheta_samples demo = 2"
  "pdist_scale demo = 1" "gdist_scale demo = 1" "occdist_scale demo = 1" "hdiff_scale demo = 1"
  "path_distance_max demo = 2"
  "acc_lim_x demo = 1" "acc_lim_y demo = 1" "acc_lim_theta demo = 1"
  "prev_x demo = 0" "prev_y demo = 0" "escape_x demo = 0" "escape_y demo = 0"
  "escape_theta demo = 0" "oscillation_reset_dist demo = 1" "escape_reset_dist demo = 1"
  "escape_reset_theta demo = 1" "\<not> holonomic_robot demo"
  "max_vel_x demo = 0.4" "min_vel_x demo = - 0.4" "max_vel_y demo = 0.1" "min_vel_y demo = - 0.1"
  "max_vel_th demo = 0.3" "min_vel_th demo = 0.1" "min_in_place_vel_th demo = 0.4"
  "backup_vel demo = - 0.1" "\<not> dwa demo" "\<not> heading_scoring demo" "\<not> meter_scoring demo"
  "\<not> simple_attractor demo" "sim_period demo = 0.1"
  "\<not> stuck_left demo" "\<not> stuck_right demo" "\<not> stuck_left_strafe demo"
  "\<not> stuck_right_strafe demo" "\<not> rotating_left demo" "\<not> rotating_right demo"
  "\<not> strafe_left demo" "\<not> strafe_right demo" "\<not> escaping demo"
  "traj_one demo = blank" "traj_two demo = blank"
  "shortest_angular_distance demo a b = b - a"
  by (simp_all add: demo_def)

lemmas sim_defs = generateTrajectory_def num_steps_of_def to_int_def hypot_zero_right
  sim_step_def sim_init_def score_point_def update_distances_def footprintCost_def
  advance_def final_cost_def computeNewVelocity_def computeNewXPosition_def
  computeNewYPosition_def computeNewThetaPosition_def Let_def

lemma num_steps_demo:
  "num_steps_of demo 0 0 0 = 1" "num_steps_of demo (- (2 / 5)) 0 0 = 2"
  "num_steps_of demo (- (2 / 5)) 0 (1 / 10) = 2" "num_steps_of demo 0 0 (2 / 5) = 1"
  "num_steps_of demo (- (1 / 10)) 0 0 = 1"
  by (simp_all add: num_steps_of_def to_int_def hypot_zero_right demo_fields Let_def)

lemma gen_demo_ref:
  "generateTrajectory demo 0 0 0 0 0 0 0 0 0 1 1 1 100 t
     = Some (t\<lparr>xv := 0, yv := 0, thetav := 0, cost := 5, goal_cost_traj := 5,
                path_dist_traj := - 2, points := [(0, 0, 0)]\<rparr>)"
  unfolding generateTrajectory_def num_steps_demo
  by (simp add: sim_defs demo_fields)

lemma gen_demo_back:
  "generateTrajectory demo 0 0 0 0 0 0 (- (2 / 5)) 0 0 1 1 1 100 t
     = Some (t\<lparr>xv := - (2 / 5), yv := 0, thetav := 0, cost := - 5,
                path_dist_traj := - 2, points := [(0, 0, 0)]\<rparr>)"
  unfolding generateTrajectory_def num_steps_demo
  by (simp add: sim_defs demo_fields eval_nat_numeral)

lemma gen_demo_back_turn:
  "generateTrajectory demo 0 0 0 0 0 0 (- (2 / 5)) 0 (1 / 10) 1 1 1 100 t
     = Some (t\<lparr>xv := - (2 / 5), yv := 0, thetav := 1 / 10, cost := 6, goal_cost_traj := 1,
                path_dist_traj := - 2, points := [(0, 0, 0), (- (1 / 5), 0, 1 / 20)]\<rparr>)"
  unfolding generateTrajectory_def num_steps_demo
  by (simp add: sim_defs demo_fields eval_nat_numeral)

lemma gen_demo_turn:
  "generateTrajectory demo 0 0 0 0 0 0 0 0 (2 / 5) 1 1 1 100 t
     = Some (t\<lparr>xv := 0, yv := 0, thetav := 2 / 5, cost := 5, goal_cost_traj := 5,
                path_dist_traj := - 2, points := [(0, 0, 0)]\<rparr>)"
  unfolding generateTrajectory_def num_steps_demo
  by (simp add: sim_defs demo_fields)

lemma gen_demo_backup:
  "generateTrajectory demo 0 0 0 0 0 0 (- (1 / 10)) 0 0 1 1 1 100 t
     = Some (t\<lparr>xv := - (1 / 10), yv := 0, thetav := 0, cost := 5, goal_cost_traj := 5,
                path_dist_traj := - 2, points := [(0, 0, 0)]\<rparr>)"
  unfolding generateTrajectory_def num_steps_demo
  by (simp add: sim_defs demo_fields)


lemma sampler_env:
  assumes "costmap q = costmap p" "world_model q = world_model p" "path_map q = path_map p"
    "goal_map q = goal_map p" "global_plan q = global_plan p"
    "shortest_angular_distance q = shortest_angular_distance p"
    "path_distance_max q = path_distance_max p" "heading_scoring q = heading_scoring p"
    "meter_scoring q = meter_scoring p" "simple_attractor q = simple_attractor p"
    "sim_time q = sim_time p" "sim_granularity q = sim_granularity p"
    "angular_sim_granularity q = angular_sim_granularity p"
    "pdist_scale q = pdist_scale p" "gdist_scale q = gdist_scale p"
    "occdist_scale q = occdist_scale p" "hdiff_scale q = hdiff_scale p"
  shows "sampler q = sampler p"
  by (intro ext) (simp only: sampler_def generateTrajectory_env[OF assms] assms(3))

lemma sampler_demo:
  "sampler demo 0 0 0 0 0 0 1 1 1 0 0 0 t
     = Some (t\<lparr>xv := 0, yv := 0, thetav := 0, cost := 5, goal_cost_traj := 5,
                path_dist_traj := - 2, points := [(0, 0, 0)]\<rparr>)"
  "sampler demo 0 0 0 0 0 0 1 1 1 (- (2 / 5)) 0 0 t
     = Some (t\<lparr>xv := - (2 / 5), yv := 0, thetav := 0, cost := - 5,
                path_dist_traj := - 2, points := [(0, 0, 0)]\<rparr>)"
  "sampler demo 0 0 0 0 0 0 1 1 1 (- (2 / 5)) 0 (1 / 10) t
     = Some (t\<lparr>xv := - (2 / 5), yv := 0, thetav := 1 / 10, cost := 6, goal_cost_traj := 1,
                path_dist_traj := - 2, points := [(0, 0, 0), (- (1 / 5), 0, 1 / 20)]\<rparr>)"
  "sampler demo 0 0 0 0 0 0 1 1 1 0 0 (2 / 5) t
     = Some (t\<lparr>xv := 0, yv := 0, thetav := 2 / 5, cost := 5, goal_cost_traj := 5,
                path_dist_traj := - 2, points := [(0, 0, 0)]\<rparr>)"
  "sampler demo 0 0 0 0 0 0 1 1 1 (- (1 / 10)) 0 0 t
     = Some (t\<lparr>xv := - (1 / 10), yv := 0, thetav := 0, cost := 5, goal_cost_traj := 5,
                path_dist_traj := - 2, points := [(0, 0, 0)]\<rparr>)"
  by (simp_all add: sampler_def demo_fields gen_demo_ref gen_demo_back gen_demo_back_turn
      gen_demo_turn gen_demo_backup)

lemmas search_defs = candidate_def better_def better_in_place_def beyond_dvtheta_def
  deref_def store_def swap_def Let_def

text \<open>The sweeps on the demo planner, one candidate at a time.\<close>

lemma x_sweep_demo:
  "x_sweep (sampler demo 0 0 0 0 0 0 1 1 1)
      (blank\<lparr>xv := 0, yv := 0, thetav := 0, cost := 5, goal_cost_traj := 5,
                path_dist_traj := - 2, points := [(0, 0, 0)]\<rparr>)
      dvx (1 / 5) (1 / 10) (Suc 0) 0 (Suc 0) (- (2 / 5))
      \<lparr>b_one = t1\<lparr>cost := - 1\<rparr>, b_two = t2, best_traj = One, comp_traj = Two\<rparr>
   = Some \<lparr>b_one = t1\<lparr>cost := - 1\<rparr>,
           b_two = t2\<lparr>xv := - (2 / 5), yv := 0, thetav := 1 / 10, cost := 6,
                      goal_cost_traj := 1, path_dist_traj := - 2,
                      points := [(0, 0, 0), (- (1 / 5), 0, 1 / 20)]\<rparr>,
           best_traj = Two, comp_traj = One\<rparr>"
  by (simp add: search_defs sampler_demo blank_def)

lemma rotate_sweep_demo:
  assumes "cost t2 = 6" "goal_cost_traj t2 = 1" "yv t2 = 0"
  shows "rotate_sweep (sampler demo 0 0 0 0 0 0 1 1 1)
      (blank\<lparr>xv := 0, yv := 0, thetav := 0, cost := 5, goal_cost_traj := 5,
                path_dist_traj := - 2, points := [(0, 0, 0)]\<rparr>)
      (2 / 5) (1 / 5) 2 (Suc (Suc 0)) (1 / 10)
      \<lparr>b_one = t1, b_two = t2, best_traj = Two, comp_traj = One\<rparr>
   = Some \<lparr>b_one = t1\<lparr>xv := 0, yv := 0, thetav := 2 / 5, cost := 5, goal_cost_traj := 5,
                      path_dist_traj := - 2, points := [(0, 0, 0)]\<rparr>,
           b_two = t2, best_traj = Two, comp_traj = One\<rparr>"
  using assms by (simp add: search_defs sampler_demo blank_def)

lemma sampler_variant:
  "sampler (demo\<lparr>vtheta_samples := n, traj_one := t1, rotating_left := rl,
        oscillation_reset_dist := d, prev_x := px\<rparr>) = sampler demo"
  by (rule sampler_env) simp_all

lemma limits_variant:
  "velocity_limits (demo\<lparr>vtheta_samples := n, traj_one := t1, rotating_left := rl,
        oscillation_reset_dist := d, prev_x := px\<rparr>) jx jy 0 0 0 0 0 1 1 1
     = \<lparr>l_max_vel_x = 2 / 5, l_min_vel_x = - (2 / 5), l_max_vel_y = 1 / 10,
        l_min_vel_y = - (1 / 10), l_max_vel_theta = 3 / 10, l_min_vel_theta = 1 / 10\<rparr>"
  by (simp add: velocity_limits_def demo_fields hypot_zero_right Let_def)

lemma search_demo_two:
  "search (demo\<lparr>vtheta_samples := 2, traj_one := blank, rotating_left := rl,
        oscillation_reset_dist := d, prev_x := px\<rparr>) blank jx jy 0 0 0 0 0 0 1 1 1
   = Some (blank\<lparr>xv := 0, yv := 0, thetav := 0, cost := 5, goal_cost_traj := 5,
                  path_dist_traj := - 2, points := [(0, 0, 0)]\<rparr>,
           \<lparr>b_one = blank\<lparr>xv := 0, yv := 0, thetav := 2 / 5, cost := 5, goal_cost_traj := 5,
                      path_dist_traj := - 2, points := [(0, 0, 0)]\<rparr>,
            b_two = blank\<lparr>xv := - (2 / 5), yv := 0, thetav := 1 / 10, cost := 6,
                      goal_cost_traj := 1, path_dist_traj := - 2,
                      points := [(0, 0, 0), (- (1 / 5), 0, 1 / 20)]\<rparr>,
            best_traj = Two, comp_traj = One\<rparr>)"
proof -
  have x: "x_sweep (sampler demo 0 0 0 0 0 0 1 1 1)
      (blank\<lparr>xv := 0, yv := 0, thetav := 0, cost := 5, goal_cost_traj := 5,
                path_dist_traj := - 2, points := [(0, 0, 0)]\<rparr>)
      0 (1 / 5) (1 / 10) (Suc 0) 0 (Suc 0) (- (2 / 5))
      \<lparr>b_one = blank\<lparr>cost := - 1\<rparr>, b_two = blank\<lparr>cost := - 1\<rparr>,
        best_traj = One, comp_traj = Two\<rparr>
   = Some \<lparr>b_one = blank\<lparr>cost := - 1\<rparr>,
           b_two = blank\<lparr>xv := - (2 / 5), yv := 0, thetav := 1 / 10, cost := 6,
                      goal_cost_traj := 1, path_dist_traj := - 2,
                      points := [(0, 0, 0), (- (1 / 5), 0, 1 / 20)]\<rparr>,
           best_traj = Two, comp_traj = One\<rparr>"
    using x_sweep_demo[of 0 blank "blank\<lparr>cost := - 1\<rparr>"] by simp
  have r: "rotate_sweep (sampler demo 0 0 0 0 0 0 1 1 1)
      (blank\<lparr>xv := 0, yv := 0, thetav := 0, cost := 5, goal_cost_traj := 5,
                path_dist_traj := - 2, points := [(0, 0, 0)]\<rparr>)
      (2 / 5) (1 / 5) 2 (Suc (Suc 0)) (1 / 10)
      \<lparr>b_one = blank\<lparr>cost := - 1\<rparr>,
        b_two = blank\<lparr>xv := - (2 / 5), yv := 0, thetav := 1 / 10, cost := 6,
                      goal_cost_traj := 1, path_dist_traj := - 2,
                      points := [(0, 0, 0), (- (1 / 5), 0, 1 / 20)]\<rparr>,
        best_traj = Two, comp_traj = One\<rparr>
   = Some \<lparr>b_one = blank\<lparr>xv := 0, yv := 0, thetav := 2 / 5, cost := 5, goal_cost_traj := 5,
                      path_dist_traj := - 2, points := [(0, 0, 0)]\<rparr>,
           b_two = blank\<lparr>xv := - (2 / 5), yv := 0, thetav := 1 / 10, cost := 6,
                      goal_cost_traj := 1, path_dist_traj := - 2,
                      points := [(0, 0, 0), (- (1 / 5), 0, 1 / 20)]\<rparr>,
           best_traj = Two, comp_traj = One\<rparr>"
    by (subst rotate_sweep_demo) simp_all
  show ?thesis
    unfolding search_def sampler_variant limits_variant Let_def
    by (simp add: sampler_demo sampling_tiers_def demo_fields eval_nat_numeral x r Let_def
        del: x_sweep.simps rotate_sweep.simps)
qed


subsection \<open>The oscillation flags on the demo planner\<close>

lemma demo_variant:
  "demo\<lparr>rotating_left := rl, oscillation_reset_dist := d, prev_x := px\<rparr>
     = demo\<lparr>vtheta_samples := 2, traj_one := blank, rotating_left := rl,
            oscillation_reset_dist := d, prev_x := px\<rparr>"
  "demo = demo\<lparr>vtheta_samples := 2, traj_one := blank, rotating_left := False,
            oscillation_reset_dist := 1, prev_x := 0\<rparr>"
  by (simp_all add: demo_def)

lemma search_demo_flags:
  "search (demo\<lparr>rotating_left := rl, oscillation_reset_dist := d, prev_x := px\<rparr>)
      blank jx jy 0 0 0 0 0 0 1 1 1
   = Some (stand_still,
           \<lparr>b_one = turn_in_place, b_two = back_and_turn, best_traj = Two, comp_traj = One\<rparr>)"
  unfolding demo_variant(1) search_demo_two stand_still_def turn_in_place_def back_and_turn_def
  by (rule refl)


lemma demo_trajectories:
  "cost back_and_turn = 6" "xv back_and_turn = - (2 / 5)" "yv back_and_turn = 0"
  "thetav back_and_turn = 1 / 10" "goal_cost_traj back_and_turn = 1"
  "cost stand_still = 5" "goal_cost_traj stand_still = 5"
  "cost turn_in_place = 5" "goal_cost_traj turn_in_place = 5"
  by (simp_all add: back_and_turn_def stand_still_def turn_in_place_def blank_def)

lemma createTrajectories_demo_flags:
  "createTrajectories (demo\<lparr>rotating_left := rl, oscillation_reset_dist := d, prev_x := px\<rparr>)
      blank jx jy 0 0 0 0 0 0 1 1 1
   = Some (back_and_turn,
           keep_buffers
             (reset_escape
                (reset_oscillation
                   (mark_oscillation
                      (demo\<lparr>rotating_left := rl, oscillation_reset_dist := d, prev_x := px\<rparr>)
                      back_and_turn 0 0) 0 0) 0 0 0)
             \<lparr>b_one = turn_in_place, b_two = back_and_turn, best_traj = Two, comp_traj = One\<rparr>)"
  using createTrajectories_selected[OF search_demo_flags]
  by (simp add: deref_def demo_trajectories)

lemma flags_demo_flags:
  "map_option (flags \<circ> snd)
     (createTrajectories (demo\<lparr>rotating_left := rl, oscillation_reset_dist := d, prev_x := px\<rparr>)
        blank jx jy 0 0 0 0 0 0 1 1 1)
   = Some (if d < 0 then replicate 8 False
           else [True, False, False, False, rl, False, False, False])"
  by (simp add: createTrajectories_demo_flags flags_after_selection flags_mark_oscillation
      demo_trajectories demo_fields)

lemma choice_demo_flags:
  "map_option fst
     (createTrajectories (demo\<lparr>rotating_left := rl, oscillation_reset_dist := d, prev_x := px\<rparr>)
        blank jx jy 0 0 0 0 0 0 1 1 1) = Some back_and_turn"
  by (simp add: createTrajectories_demo_flags)

text \<open>
  The demo planner with the rotating-left flag set chooses the trajectory that reverses
  and turns left. With a negative reset distance the call leaves all eight flags cleared;
  with the anchor of earlier calls ten metres away and a reset distance of one, it leaves
  rotating-left and stuck-left set and clears nothing.
\<close>

theorem oscillation_flags_counterexample:
  "map_option fst
     (createTrajectories (demo\<lparr>rotating_left := True, oscillation_reset_dist := - 1, prev_x := 0\<rparr>)
        blank 0 0 0 0 0 0 0 0 1 1 1) = Some back_and_turn
   \<and> 0 \<le> cost back_and_turn \<and> \<not> 0 < xv back_and_turn \<and> 0 < thetav back_and_turn
   \<and> rotating_left (demo\<lparr>rotating_left := True, oscillation_reset_dist := - 1, prev_x := 0\<rparr>)
   \<and> map_option (flags \<circ> snd)
       (createTrajectories (demo\<lparr>rotating_left := True, oscillation_reset_dist := - 1, prev_x := 0\<rparr>)
          blank 0 0 0 0 0 0 0 0 1 1 1) = Some (replicate 8 False)
   \<and> map_option fst
       (createTrajectories (demo\<lparr>rotating_left := True, oscillation_reset_dist := 1, prev_x := 10\<rparr>)
          blank 0 0 0 0 0 0 0 0 1 1 1) = Some back_and_turn
   \<and> oscillation_reset_dist (demo\<lparr>rotating_left := True, oscillation_reset_dist := 1, prev_x := 10\<rparr>)
       < hypot (0 - prev_x (demo\<lparr>rotating_left := True, oscillation_reset_dist := 1, prev_x := 10\<rparr>))
           (0 - prev_y (demo\<lparr>rotating_left := True, oscillation_reset_dist := 1, prev_x := 10\<rparr>))
   \<and> map_option (flags \<circ> snd)
       (createTrajectories (demo\<lparr>rotating_left := True, oscillation_reset_dist := 1, prev_x := 10\<rparr>)
          blank 0 0 0 0 0 0 0 0 1 1 1)
       = Some [True, False, False, False, True, False, False, False]"
  by (simp add: choice_demo_flags flags_demo_flags demo_trajectories demo_fields
      hypot_zero_right)

theorem oscillation_flags_witness:
  "search (demo\<lparr>rotating_left := True, oscillation_reset_dist := 1, prev_x := 10\<rparr>)
      blank 0 0 0 0 0 0 0 0 1 1 1
     = Some (stand_still,
             \<lparr>b_one = turn_in_place, b_two = back_and_turn, best_traj = Two, comp_traj = One\<rparr>)
   \<and> 0 \<le> cost back_and_turn
   \<and> (\<exists>p'. createTrajectories (demo\<lparr>rotating_left := True, oscillation_reset_dist := 1, prev_x := 10\<rparr>)
              blank 0 0 0 0 0 0 0 0 1 1 1 = Some (back_and_turn, p')
         \<and> prev_x p' = 0 \<and> prev_y p' = 0 \<and> rotating_left p' \<and> stuck_left p')"
proof -
  let ?p = "demo\<lparr>rotating_left := True, oscillation_reset_dist := 1, prev_x := 10\<rparr>"
  let ?b = "\<lparr>b_one = turn_in_place, b_two = back_and_turn, best_traj = Two, comp_traj = One\<rparr>"
  have s: "search ?p blank 0 0 0 0 0 0 0 0 1 1 1 = Some (stand_still, ?b)"
    by (rule search_demo_flags)
  have t: "back_and_turn = deref ?b (best_traj ?b)" by (simp add: deref_def)
  have c: "0 \<le> cost back_and_turn" by (simp add: demo_trajectories)
  from oscillation_flags_after_selection[OF s t c]
  obtain p' where "createTrajectories ?p blank 0 0 0 0 0 0 0 0 1 1 1 = Some (back_and_turn, p')"
    "prev_x p' = 0 \<and> prev_y p' = 0" "rotating_left p' \<and> stuck_left p'"
    by (auto simp: demo_trajectories demo_fields)
  with s c show ?thesis by blast
qed



subsection \<open>The backup tier returns the buffer of an earlier call\<close>

lemma sampler_one_sample:
  "sampler (demo\<lparr>vtheta_samples := 1, traj_one := t1\<rparr>) = sampler demo"
  by (rule sampler_env) simp_all

lemma limits_one_sample:
  "velocity_limits (demo\<lparr>vtheta_samples := 1, traj_one := t1\<rparr>) jx jy 0 0 0 0 0 1 1 1
     = \<lparr>l_max_vel_x = 2 / 5, l_min_vel_x = - (2 / 5), l_max_vel_y = 1 / 10,
        l_min_vel_y = - (1 / 10), l_max_vel_theta = 3 / 10, l_min_vel_theta = 1 / 10\<rparr>"
  by (simp add: velocity_limits_def demo_fields hypot_zero_right Let_def)

lemma tiers_one_sample:
  "sampling_tiers (demo\<lparr>vtheta_samples := 1, traj_one := t1\<rparr>)
      (sampler demo 0 0 0 0 0 0 1 1 1)
      \<lparr>l_max_vel_x = 2 / 5, l_min_vel_x = - (2 / 5), l_max_vel_y = 1 / 10,
        l_min_vel_y = - (1 / 10), l_max_vel_theta = 3 / 10, l_min_vel_theta = 1 / 10\<rparr>
      stand_still
   = Some \<lparr>b_one = t1\<lparr>cost := - 1\<rparr>, b_two = turn_in_place,
            best_traj = One, comp_traj = Two\<rparr>"
  by (simp add: sampling_tiers_def demo_fields search_defs sampler_demo stand_still_def
      turn_in_place_def blank_def)

lemma search_one_sample:
  "search (demo\<lparr>vtheta_samples := 1, traj_one := t1\<rparr>) blank jx jy 0 0 0 0 0 0 1 1 1
   = Some (stand_still,
           \<lparr>b_one = t1\<lparr>cost := - 1\<rparr>, b_two = turn_in_place,
             best_traj = One, comp_traj = Two\<rparr>)"
proof -
  have r: "sampler demo 0 0 0 0 0 0 1 1 1 0 0 0 blank = Some stand_still"
    by (simp add: sampler_demo stand_still_def)
  show ?thesis
    unfolding search_def sampler_one_sample limits_one_sample Let_def
    by (simp only: r tiers_one_sample option.case)
qed

lemma backup_one_sample:
  "backup_tier (demo\<lparr>vtheta_samples := 1, traj_one := t1\<rparr>) (sampler demo 0 0 0 0 0 0 1 1 1)
      \<lparr>b_one = t1\<lparr>cost := - 1\<rparr>, b_two = turn_in_place, best_traj = One, comp_traj = Two\<rparr>
      0 0 0
   = Some (t1\<lparr>cost := 1\<rparr>,
           demo\<lparr>vtheta_samples := 1, traj_one := t1\<lparr>cost := 1\<rparr>,
                traj_two := turn_in_place\<lparr>xv := - (1 / 10), thetav := 0\<rparr>\<rparr>)"
  by (simp add: backup_tier_def demo_fields search_defs sampler_demo reset_oscillation_def
      reset_escape_def keep_buffers_def hypot_zero_right turn_in_place_def blank_def)

lemma createTrajectories_one_sample:
  "createTrajectories (demo\<lparr>vtheta_samples := 1, traj_one := t1\<rparr>) blank jx jy 0 0 0 0 0 0 1 1 1
   = Some (t1\<lparr>cost := 1\<rparr>,
           demo\<lparr>vtheta_samples := 1, traj_one := t1\<lparr>cost := 1\<rparr>,
                traj_two := turn_in_place\<lparr>xv := - (1 / 10), thetav := 0\<rparr>\<rparr>)"
  by (simp add: createTrajectories_def search_one_sample sampler_one_sample backup_one_sample
      deref_def)

lemma thetav_demo: "thetav turn_in_place = 2 / 5" "thetav blank = 0"
  by (simp_all add: turn_in_place_def blank_def)

text \<open>
  C6. Two calls of \<^verbatim>\<open>createTrajectories\<close> on the demo planner with one theta sample, the
  same pose, velocity and acceleration limits, which differ only in what the buffer
  \<^verbatim>\<open>traj_one_\<close> holds from an earlier call. No sampled trajectory is admissible, and the
  backup trajectory is (cost \<open>5\<close>): it is swapped into \<^verbatim>\<open>best_traj\<close> and swapped out again by
  the unconditional swap that follows, so the call returns the other buffer with its cost
  set to \<open>1\<close>. The angular velocity returned is \<open>0\<close> in one call and \<open>2/5\<close> in the other;
  neither is the backup trajectory.
\<close>

theorem stale_buffer_returned:
  "map_option fst
     (createTrajectories (demo\<lparr>vtheta_samples := 1, traj_one := blank\<rparr>)
        blank 0 0 0 0 0 0 0 0 1 1 1) = Some (blank\<lparr>cost := 1\<rparr>)
   \<and> map_option fst
     (createTrajectories (demo\<lparr>vtheta_samples := 1, traj_one := turn_in_place\<rparr>)
        blank 0 0 0 0 0 0 0 0 1 1 1) = Some (turn_in_place\<lparr>cost := 1\<rparr>)
   \<and> thetav (blank\<lparr>cost := 1\<rparr>) = 0 \<and> thetav (turn_in_place\<lparr>cost := 1\<rparr>) = 2 / 5
   \<and> sampler (demo\<lparr>vtheta_samples := 1, traj_one := turn_in_place\<rparr>) 0 0 0 0 0 0 1 1 1
        (backup_vel (demo\<lparr>vtheta_samples := 1, traj_one := turn_in_place\<rparr>)) 0 0 blank
      = Some (blank\<lparr>xv := - (1 / 10), yv := 0, thetav := 0, cost := 5, goal_cost_traj := 5,
                path_dist_traj := - 2, points := [(0, 0, 0)]\<rparr>)"
  by (simp add: createTrajectories_one_sample sampler_one_sample sampler_demo demo_fields
      thetav_demo)

subsection \<open>The backup tier when every footprint collides\<close>

lemma to_int_nonneg: "0 \<le> r \<Longrightarrow> 0 \<le> to_int r"
  by (simp add: to_int_def)

lemma num_steps_of_pos:
  assumes "0 \<le> sim_time p" "0 < sim_granularity p" "0 < angular_sim_granularity p"
  shows "0 < num_steps_of p a b c"
proof -
  have "0 \<le> max (hypot a b * sim_time p / sim_granularity p) (\<bar>c\<bar> / angular_sim_granularity p)
             + 0.5"
    using assms hypot_nonneg[of a b] by (simp add: le_max_iff_disj)
  moreover have "0 \<le> sim_time p / sim_granularity p + 0.5" using assms by simp
  ultimately show ?thesis
    using to_int_nonneg by (auto simp: num_steps_of_def Let_def order_less_le)
qed

lemma generateTrajectory_first_collision:
  assumes "0 < num_steps_of p a b c" "worldToMap (costmap p) x y = Some cell"
    "footprintCost p x y theta < 0"
  shows "generateTrajectory p x y theta vx vy vtheta a b c d e f ic t
     = Some (t\<lparr>path_dist_traj := - 2, points := [], xv := a, yv := b, thetav := c,
                cost := - 5\<rparr>)"
proof -
  from assms(1) obtain n where n: "nat (num_steps_of p a b c) = Suc n"
    by (metis Suc_pred' zero_less_nat_eq)
  obtain cx cy where "cell = (cx, cy)" by (cases cell)
  with assms(2,3) show ?thesis
    by (simp add: generateTrajectory_def Let_def n sim_step_def sim_init_def)
qed

lemma sampler_wall:
  "sampler (demo\<lparr>world_model := wall\<rparr>) 0 0 0 0 0 0 1 1 1 a b c t
     = Some (t\<lparr>path_dist_traj := - 2, points := [], xv := a, yv := b, thetav := c,
                cost := - 5\<rparr>)"
  unfolding sampler_def
  by (rule generateTrajectory_first_collision[OF num_steps_of_pos])
    (simp_all add: demo_fields footprintCost_def wall_def)



lemma limits_wall:
  "velocity_limits (demo\<lparr>world_model := wall\<rparr>) jx jy 0 0 0 0 0 1 1 1
     = \<lparr>l_max_vel_x = 2 / 5, l_min_vel_x = - (2 / 5), l_max_vel_y = 1 / 10,
        l_min_vel_y = - (1 / 10), l_max_vel_theta = 3 / 10, l_min_vel_theta = 1 / 10\<rparr>"
  by (simp add: velocity_limits_def demo_fields hypot_zero_right Let_def)

lemma candidate_wall:
  "candidate (sampler (demo\<lparr>world_model := wall\<rparr>) 0 0 0 0 0 0 1 1 1) (better ref) a b c
      \<lparr>b_one = t1, b_two = t2, best_traj = One, comp_traj = Two\<rparr>
   = Some \<lparr>b_one = t1,
           b_two = t2\<lparr>path_dist_traj := - 2, points := [], xv := a, yv := b, thetav := c,
                      cost := - 5\<rparr>,
           best_traj = One, comp_traj = Two\<rparr>"
  "candidate (sampler (demo\<lparr>world_model := wall\<rparr>) 0 0 0 0 0 0 1 1 1)
      (better_in_place ref beyond) a b c
      \<lparr>b_one = t1, b_two = t2, best_traj = One, comp_traj = Two\<rparr>
   = Some \<lparr>b_one = t1,
           b_two = t2\<lparr>path_dist_traj := - 2, points := [], xv := a, yv := b, thetav := c,
                      cost := - 5\<rparr>,
           best_traj = One, comp_traj = Two\<rparr>"
  by (simp_all add: search_defs sampler_wall)


lemma tiers_wall:
  "sampling_tiers (demo\<lparr>world_model := wall\<rparr>)
      (sampler (demo\<lparr>world_model := wall\<rparr>) 0 0 0 0 0 0 1 1 1)
      \<lparr>l_max_vel_x = 2 / 5, l_min_vel_x = - (2 / 5), l_max_vel_y = 1 / 10,
        l_min_vel_y = - (1 / 10), l_max_vel_theta = 3 / 10, l_min_vel_theta = 1 / 10\<rparr>
      ref
   = Some \<lparr>b_one = blank\<lparr>cost := - 1\<rparr>,
            b_two = blank\<lparr>path_dist_traj := - 2, points := [], xv := 0, yv := 0,
                          thetav := 2 / 5, cost := - 5\<rparr>,
            best_traj = One, comp_traj = Two\<rparr>"
  by (simp add: sampling_tiers_def demo_fields candidate_wall eval_nat_numeral)

lemma search_wall:
  "search (demo\<lparr>world_model := wall\<rparr>) blank jx jy 0 0 0 0 0 0 1 1 1
   = Some (blank\<lparr>path_dist_traj := - 2, points := [], xv := 0, yv := 0, thetav := 0,
                  cost := - 5\<rparr>,
           \<lparr>b_one = blank\<lparr>cost := - 1\<rparr>,
            b_two = blank\<lparr>path_dist_traj := - 2, points := [], xv := 0, yv := 0,
                          thetav := 2 / 5, cost := - 5\<rparr>,
            best_traj = One, comp_traj = Two\<rparr>)"
  unfolding search_def limits_wall Let_def
  by (simp only: sampler_wall tiers_wall option.case)

lemma backup_wall:
  "map_option fst
     (backup_tier (demo\<lparr>world_model := wall\<rparr>)
        (sampler (demo\<lparr>world_model := wall\<rparr>) 0 0 0 0 0 0 1 1 1)
        \<lparr>b_one = blank\<lparr>cost := - 1\<rparr>,
          b_two = blank\<lparr>path_dist_traj := - 2, points := [], xv := 0, yv := 0,
                        thetav := 2 / 5, cost := - 5\<rparr>,
          best_traj = One, comp_traj = Two\<rparr> 0 0 0)
   = Some (blank\<lparr>path_dist_traj := - 2, points := [], xv := - (1 / 10), yv := 0,
                  thetav := 0, cost := - 5\<rparr>)"
  by (simp add: backup_tier_def sampler_wall demo_fields deref_def store_def swap_def Let_def)


text \<open>
  C1. With a world model that rejects every footprint, the sampling tiers end with the
  incumbent still at cost \<open>-1\<close>, and the backup trajectory that \<^verbatim>\<open>createTrajectories\<close> then
  generates at \<^verbatim>\<open>backup_vel_\<close> is stopped by the collision check at its first point: it
  carries the collision sentinel \<open>-5\<close>. The backup tier compares the cost with \<open>-1\<close>
  before replacing it by \<open>1\<close>, so the trajectory is returned with the negative cost
  \<open>-5\<close>.
\<close>

theorem backup_rejected_by_collision:
  "footprintCost (demo\<lparr>world_model := wall\<rparr>) 0 0 0 = - 1
   \<and> search (demo\<lparr>world_model := wall\<rparr>) blank 0 0 0 0 0 0 0 0 1 1 1
     = Some (blank\<lparr>path_dist_traj := - 2, points := [], xv := 0, yv := 0, thetav := 0,
                    cost := - 5\<rparr>,
             \<lparr>b_one = blank\<lparr>cost := - 1\<rparr>,
              b_two = blank\<lparr>path_dist_traj := - 2, points := [], xv := 0, yv := 0,
                            thetav := 2 / 5, cost := - 5\<rparr>,
              best_traj = One, comp_traj = Two\<rparr>)
   \<and> backup_vel (demo\<lparr>world_model := wall\<rparr>) = - (1 / 10)
   \<and> sampler (demo\<lparr>world_model := wall\<rparr>) 0 0 0 0 0 0 1 1 1 (- (1 / 10)) 0 0 blank
     = Some (blank\<lparr>path_dist_traj := - 2, points := [], xv := - (1 / 10), yv := 0,
                    thetav := 0, cost := - 5\<rparr>)
   \<and> map_option fst
       (createTrajectories (demo\<lparr>world_model := wall\<rparr>) blank 0 0 0 0 0 0 0 0 1 1 1)
     = Some (blank\<lparr>path_dist_traj := - 2, points := [], xv := - (1 / 10), yv := 0,
                    thetav := 0, cost := - 5\<rparr>)
   \<and> map_option (cost \<circ> fst)
       (createTrajectories (demo\<lparr>world_model := wall\<rparr>) blank 0 0 0 0 0 0 0 0 1 1 1)
     = Some (- 5)"
proof -
  have a: "createTrajectories (demo\<lparr>world_model := wall\<rparr>) blank 0 0 0 0 0 0 0 0 1 1 1
     = backup_tier (demo\<lparr>world_model := wall\<rparr>)
        (sampler (demo\<lparr>world_model := wall\<rparr>) 0 0 0 0 0 0 1 1 1)
        \<lparr>b_one = blank\<lparr>cost := - 1\<rparr>,
          b_two = blank\<lparr>path_dist_traj := - 2, points := [], xv := 0, yv := 0,
                        thetav := 2 / 5, cost := - 5\<rparr>,
          best_traj = One, comp_traj = Two\<rparr> 0 0 0"
    by (rule createTrajectories_backup[OF search_wall]) (simp add: deref_def)
  have b: "map_option fst
       (createTrajectories (demo\<lparr>world_model := wall\<rparr>) blank 0 0 0 0 0 0 0 0 1 1 1)
     = Some (blank\<lparr>path_dist_traj := - 2, points := [], xv := - (1 / 10), yv := 0,
                    thetav := 0, cost := - 5\<rparr>)"
    unfolding a by (rule backup_wall)
  have c: "map_option (cost \<circ> fst)
       (createTrajectories (demo\<lparr>world_model := wall\<rparr>) blank 0 0 0 0 0 0 0 0 1 1 1)
     = map_option cost (map_option fst
       (createTrajectories (demo\<lparr>world_model := wall\<rparr>) blank 0 0 0 0 0 0 0 0 1 1 1))"
    by (simp add: option.map_comp)
  have d: "footprintCost (demo\<lparr>world_model := wall\<rparr>) 0 0 0 = - 1"
    by (simp add: footprintCost_def wall_def)
  have e: "backup_vel (demo\<lparr>world_model := wall\<rparr>) = - (1 / 10)"
    by (simp add: demo_fields)
  show ?thesis
    unfolding c b by (simp add: d e search_wall sampler_wall)
qed



subsection \<open>A trajectory given up at its second point\<close>

lemma second_pass_demo_back:
  "\<exists>s. after_passes demo 0 0 0 0 0 0 (- (2 / 5)) 0 0 1 1 1 100 blank (Suc 0) = Continue s
      \<and> failure demo 100 (num_steps_of demo (- (2 / 5)) 0 0) (int (Suc 0)) s = Some Collision"
  unfolding after_passes_def num_steps_demo
  by (simp add: sim_defs demo_fields failure_def)

theorem generateTrajectory_failure_sentinels_witness:
  "global_plan demo \<noteq> []
   \<and> generateTrajectory demo 0 0 0 0 0 0 (- (2 / 5)) 0 0 1 1 1 100 blank
     = Some (blank\<lparr>xv := - (2 / 5), yv := 0, thetav := 0, cost := - 5,
                    path_dist_traj := - 2, points := [(0, 0, 0)]\<rparr>)
   \<and> (\<exists>s. after_passes demo 0 0 0 0 0 0 (- (2 / 5)) 0 0 1 1 1 100 blank (Suc 0) = Continue s
         \<and> failure demo 100 (num_steps_of demo (- (2 / 5)) 0 0) (int (Suc 0)) s
           = Some Collision
         \<and> generateTrajectory demo 0 0 0 0 0 0 (- (2 / 5)) 0 0 1 1 1 100 blank
           = Some ((traj s)\<lparr>cost := sentinel Collision\<rparr>))
   \<and> (\<exists>t'. generateTrajectory demo 0 0 0 0 0 0 (- (2 / 5)) 0 0 1 1 1 100 blank = Some t'
           \<and> ((\<exists>s. after_passes demo 0 0 0 0 0 0 (- (2 / 5)) 0 0 1 1 1 100 blank
                       (nat (num_steps_of demo (- (2 / 5)) 0 0)) = Continue s
                    \<and> (\<forall>j<nat (num_steps_of demo (- (2 / 5)) 0 0).
                          \<exists>sj. after_passes demo 0 0 0 0 0 0 (- (2 / 5)) 0 0 1 1 1 100
                                 blank j = Continue sj
                             \<and> failure demo 100 (num_steps_of demo (- (2 / 5)) 0 0)
                                 (int j) sj = None)
                    \<and> cost t' = final_cost demo s
                    \<and> length (points t') = nat (num_steps_of demo (- (2 / 5)) 0 0))
               \<or> (\<exists>k s c. k < nat (num_steps_of demo (- (2 / 5)) 0 0)
                    \<and> after_passes demo 0 0 0 0 0 0 (- (2 / 5)) 0 0 1 1 1 100 blank k
                        = Continue s
                    \<and> failure demo 100 (num_steps_of demo (- (2 / 5)) 0 0) (int k) s = Some c
                    \<and> (\<forall>j<k. \<exists>sj. after_passes demo 0 0 0 0 0 0 (- (2 / 5)) 0 0 1 1 1 100
                                      blank j = Continue sj
                                  \<and> failure demo 100 (num_steps_of demo (- (2 / 5)) 0 0)
                                      (int j) sj = None)
                    \<and> cost t' = sentinel c \<and> length (points t') = k)))
   \<and> sentinel OffMap = - 4 \<and> sentinel Collision = - 5 \<and> sentinel NoClearPath = - 2
   \<and> inj sentinel \<and> (\<forall>c. sentinel c < 0)"
proof -
  have h: "global_plan demo \<noteq> []" by (simp add: demo_fields)
  then have h': "global_plan demo \<noteq> [] \<or> (\<not> simple_attractor demo \<and> \<not> heading_scoring demo)"
    by (rule disjI1)
  note t = generateTrajectory_failure_sentinels[OF h',
      of 0 0 0 0 0 0 "- (2 / 5)" 0 0 1 1 1 100 blank]
  have n: "Suc 0 < nat (num_steps_of demo (- (2 / 5)) 0 0)" by (simp add: num_steps_demo)
  from second_pass_demo_back obtain s
    where s: "after_passes demo 0 0 0 0 0 0 (- (2 / 5)) 0 0 1 1 1 100 blank (Suc 0) = Continue s"
      and f: "failure demo 100 (num_steps_of demo (- (2 / 5)) 0 0) (int (Suc 0)) s
                = Some Collision"
    by blast
  from t[THEN conjunct2, THEN conjunct1, rule_format, OF conjI[OF n conjI[OF s f]]]
  have g: "generateTrajectory demo 0 0 0 0 0 0 (- (2 / 5)) 0 0 1 1 1 100 blank
             = Some ((traj s)\<lparr>cost := sentinel Collision\<rparr>)" .
  from s f g have e: "\<exists>s. after_passes demo 0 0 0 0 0 0 (- (2 / 5)) 0 0 1 1 1 100 blank (Suc 0)
           = Continue s
         \<and> failure demo 100 (num_steps_of demo (- (2 / 5)) 0 0) (int (Suc 0)) s
           = Some Collision
         \<and> generateTrajectory demo 0 0 0 0 0 0 (- (2 / 5)) 0 0 1 1 1 100 blank
           = Some ((traj s)\<lparr>cost := sentinel Collision\<rparr>)"
    by blast
  show ?thesis
    by (intro conjI h e gen_demo_back t[THEN conjunct1]
        t[THEN conjunct2, THEN conjunct2, THEN conjunct2])
qed

subsection \<open>Candidates that replace the incumbent on the demo planner\<close>





subsection \<open>An admissible in-place rotation that is passed over\<close>










subsection \<open>The path-distance cap on the demo planner\<close>

lemma after_passes_demo_0:
  "after_passes demo 0 0 0 0 0 0 a b c 1 1 1 100 blank 0
     = Continue (sim_init 0 0 0 0 0 0 a b c blank)"
  by (simp add: after_passes_def Let_def)

lemma sim_init_fields:
  "x_i (sim_init x y theta vx vy vtheta a b c t) = x"
  "y_i (sim_init x y theta vx vy vtheta a b c t) = y"
  "theta_i (sim_init x y theta vx vy vtheta a b c t) = theta"
  "goal_dist (sim_init x y theta vx vy vtheta a b c t) = 0"
  "path_dist (sim_init x y theta vx vy vtheta a b c t) = 0"
  by (simp_all add: sim_init_def)

lemma first_pass_demo:
  "worldToMap (costmap demo) 0 0 = Some (Suc 0, 0)"
  "path_distance_read demo n i (sim_init 0 0 0 0 0 0 a b c blank) (Suc 0) 0 = Some 1"
  "failure demo 100 n i (sim_init 0 0 0 0 0 0 a b c blank) = None"
  by (simp_all add: demo_fields path_distance_read_def failure_def no_clear_path_def
      footprintCost_def sim_init_fields)

lemma path_cost_back_and_turn:
  "path_cost demo (after_passes demo 0 0 0 0 0 0 (- (2 / 5)) 0 (1 / 10) 1 1 1 100 blank 2)
     = Some 5"
  unfolding after_passes_def num_steps_demo
  by (simp add: path_cost_def sim_defs demo_fields eval_nat_numeral)

theorem path_distance_cap_counterexample:
  "after_passes demo 0 0 0 0 0 0 (- (2 / 5)) 0 (1 / 10) 1 1 1 100 blank 0
     = Continue (sim_init 0 0 0 0 0 0 (- (2 / 5)) 0 (1 / 10) blank)
   \<and> worldToMap (costmap demo) 0 0 = Some (1, 0)
   \<and> path_distance_read demo (num_steps_of demo (- (2 / 5)) 0 (1 / 10)) 0
        (sim_init 0 0 0 0 0 0 (- (2 / 5)) 0 (1 / 10) blank) 1 0 = Some 1
   \<and> 0 < path_distance_max demo \<and> 1 \<le> path_distance_max demo
   \<and> num_steps_of demo (- (2 / 5)) 0 (1 / 10) = 2
   \<and> path_cost demo (after_passes demo 0 0 0 0 0 0 (- (2 / 5)) 0 (1 / 10) 1 1 1 100 blank 2)
     = Some 5
   \<and> generateTrajectory demo 0 0 0 0 0 0 (- (2 / 5)) 0 (1 / 10) 1 1 1 100 blank
     = Some back_and_turn
   \<and> cost back_and_turn = 6 \<and> goal_cost_traj back_and_turn = 1"
  by (simp add: after_passes_demo_0 first_pass_demo num_steps_demo path_cost_back_and_turn
      gen_demo_back_turn demo_fields back_and_turn_def)

theorem path_distance_cap_witness:
  "after_passes demo 0 0 0 0 0 0 0 0 0 1 1 1 100 blank 0
     = Continue (sim_init 0 0 0 0 0 0 0 0 0 blank)
   \<and> Suc 0 = nat (num_steps_of demo 0 0 0)
   \<and> worldToMap (costmap demo) 0 0 = Some (1, 0)
   \<and> path_distance_read demo (num_steps_of demo 0 0 0) 0
        (sim_init 0 0 0 0 0 0 0 0 0 blank) 1 0 = Some 1
   \<and> 0 < path_distance_max demo \<and> 1 \<le> path_distance_max demo
   \<and> failure demo 100 (num_steps_of demo 0 0 0) 0 (sim_init 0 0 0 0 0 0 0 0 0 blank) = None
   \<and> path_cost demo (after_passes demo 0 0 0 0 0 0 0 0 0 1 1 1 100 blank (Suc 0)) = Some 0
   \<and> (\<exists>s'. after_passes demo 0 0 0 0 0 0 0 0 0 1 1 1 100 blank (Suc 0) = Continue s'
         \<and> path_dist s' = 0
         \<and> generateTrajectory demo 0 0 0 0 0 0 0 0 0 1 1 1 100 blank
             = Some ((traj s')\<lparr>cost := final_cost demo s',
                               goal_cost_traj := goal_dist s' * gdist_scale demo\<rparr>)
         \<and> final_cost demo s' = goal_dist s' * gdist_scale demo + occdist_scale demo * occ_cost s')
   \<and> (\<exists>s1. update_distances demo 100 (sim_init 0 0 0 0 0 0 0 0 0 blank) = Continue s1
         \<and> goal_dist s1 = 0 \<and> path_dist s1 = 0)"
proof -
  let ?s = "sim_init 0 0 0 0 0 0 0 0 0 blank"
  have k: "after_passes demo 0 0 0 0 0 0 0 0 0 1 1 1 100 blank 0 = Continue ?s"
    by (rule after_passes_demo_0)
  have last: "Suc 0 = nat (num_steps_of demo 0 0 0)" by (simp add: num_steps_demo)
  have cell: "worldToMap (costmap demo) (x_i ?s) (y_i ?s) = Some (1, 0)"
    by (simp add: sim_init_fields first_pass_demo)
  have rd: "path_distance_read demo (num_steps_of demo 0 0 0) (int 0) ?s 1 0 = Some 1"
    by (simp add: first_pass_demo)
  have cap: "0 < path_distance_max demo" "1 \<le> path_distance_max demo"
    by (simp_all add: demo_fields)
  have ok: "failure demo 100 (num_steps_of demo 0 0 0) (int 0) ?s = None"
    by (rule first_pass_demo)
  note t = path_distance_cap_at_last_point[OF k last cell rd cap ok, of ?s]
  have h: "\<not> heading_scoring demo" by (simp add: demo_fields)
  from t h show ?thesis
    by (auto simp: first_pass_demo sim_init_fields num_steps_demo demo_fields
        after_passes_demo_0)
qed

subsection \<open>The dynamic window on the demo planner\<close>

lemma limits_dwa:
  "velocity_limits (demo\<lparr>dwa := True\<rparr>) 0 0 0 0 (3 / 10) 0 0 1 1 1
     = \<lparr>l_max_vel_x = 2 / 5, l_min_vel_x = 1 / 5, l_max_vel_y = 1 / 10,
        l_min_vel_y = 1 / 5, l_max_vel_theta = 1 / 10, l_min_vel_theta = 1 / 10\<rparr>"
  "velocity_limits (demo\<lparr>dwa := True, final_goal_x := 0\<rparr>) 0 0 0 0 (3 / 10) 0 0 1 1 1
     = \<lparr>l_max_vel_x = 0, l_min_vel_x = 1 / 5, l_max_vel_y = 0,
        l_min_vel_y = 1 / 5, l_max_vel_theta = 1 / 10, l_min_vel_theta = 1 / 10\<rparr>"
  by (simp_all add: velocity_limits_def demo_fields hypot_zero_right hypot_def Let_def)

theorem dynamic_window_counterexample:
  "dwa (demo\<lparr>dwa := True, final_goal_x := 0\<rparr>)
   \<and> l_min_vel_x (velocity_limits (demo\<lparr>dwa := True, final_goal_x := 0\<rparr>)
        0 0 0 0 (3 / 10) 0 0 1 1 1) = 1 / 5
   \<and> l_max_vel_x (velocity_limits (demo\<lparr>dwa := True, final_goal_x := 0\<rparr>)
        0 0 0 0 (3 / 10) 0 0 1 1 1) = 0
   \<and> {min_vel_x (demo\<lparr>dwa := True, final_goal_x := 0\<rparr>)
       .. max_vel_x (demo\<lparr>dwa := True, final_goal_x := 0\<rparr>)}
       \<inter> {3 / 10 - 1 * sim_period (demo\<lparr>dwa := True, final_goal_x := 0\<rparr>)
          .. 3 / 10 + 1 * sim_period (demo\<lparr>dwa := True, final_goal_x := 0\<rparr>)}
     = {1 / 5 .. 2 / 5}
   \<and> {l_min_vel_x (velocity_limits (demo\<lparr>dwa := True, final_goal_x := 0\<rparr>)
          0 0 0 0 (3 / 10) 0 0 1 1 1)
       .. l_max_vel_x (velocity_limits (demo\<lparr>dwa := True, final_goal_x := 0\<rparr>)
          0 0 0 0 (3 / 10) 0 0 1 1 1)}
     \<noteq> {min_vel_x (demo\<lparr>dwa := True, final_goal_x := 0\<rparr>)
         .. max_vel_x (demo\<lparr>dwa := True, final_goal_x := 0\<rparr>)}
         \<inter> {3 / 10 - 1 * sim_period (demo\<lparr>dwa := True, final_goal_x := 0\<rparr>)
            .. 3 / 10 + 1 * sim_period (demo\<lparr>dwa := True, final_goal_x := 0\<rparr>)}"
  by (simp add: limits_dwa demo_fields)

theorem dynamic_window_limits_witness:
  "dwa (demo\<lparr>dwa := True\<rparr>) \<and> sim_time (demo\<lparr>dwa := True\<rparr>) \<noteq> 0
   \<and> final_goal_position_valid (demo\<lparr>dwa := True\<rparr>)
   \<and> {l_min_vel_theta (velocity_limits (demo\<lparr>dwa := True\<rparr>) 0 0 0 0 (3 / 10) 0 0 1 1 1)
       .. l_max_vel_theta (velocity_limits (demo\<lparr>dwa := True\<rparr>) 0 0 0 0 (3 / 10) 0 0 1 1 1)}
     = {min_vel_th (demo\<lparr>dwa := True\<rparr>) .. max_vel_th (demo\<lparr>dwa := True\<rparr>)}
       \<inter> {0 - 1 * sim_period (demo\<lparr>dwa := True\<rparr>) .. 0 + 1 * sim_period (demo\<lparr>dwa := True\<rparr>)}
   \<and> {l_min_vel_x (velocity_limits (demo\<lparr>dwa := True\<rparr>) 0 0 0 0 (3 / 10) 0 0 1 1 1)
       .. l_max_vel_x (velocity_limits (demo\<lparr>dwa := True\<rparr>) 0 0 0 0 (3 / 10) 0 0 1 1 1)}
     = {min_vel_x (demo\<lparr>dwa := True\<rparr>) .. max_vel_x (demo\<lparr>dwa := True\<rparr>)}
       \<inter> {3 / 10 - 1 * sim_period (demo\<lparr>dwa := True\<rparr>)
          .. 3 / 10 + 1 * sim_period (demo\<lparr>dwa := True\<rparr>)}
   \<and> l_max_vel_x (velocity_limits (demo\<lparr>dwa := True\<rparr>) 0 0 0 0 (3 / 10) 0 0 1 1 1) = 2 / 5
   \<and> l_min_vel_x (velocity_limits (demo\<lparr>dwa := True\<rparr>) 0 0 0 0 (3 / 10) 0 0 1 1 1) = 1 / 5"
proof -
  let ?p = "demo\<lparr>dwa := True\<rparr>"
  have d: "dwa ?p" by simp
  have s: "sim_time ?p \<noteq> 0" by (simp add: demo_fields)
  have v: "final_goal_position_valid ?p" by (simp add: demo_fields)
  have h: "max_vel_x ?p \<le> hypot (final_goal_x ?p - 0) (final_goal_y ?p - 0) / sim_time ?p"
    "min_vel_x ?p \<le> max_vel_x ?p" "min_vel_x ?p \<le> 3 / 10 + 1 * sim_period ?p"
    by (simp_all add: demo_fields hypot_zero_right)
  note t = dynamic_window_limits[OF d s, of 0 0 0 0 "3 / 10" 0 0 1 1 1]
  have m: "hypot (final_goal_x ?p - 0) (final_goal_y ?p - 0) / sim_time ?p = 3"
    "max_vel_x ?p = 2 / 5" "min_vel_x ?p = - (2 / 5)" "sim_period ?p = 1 / 10"
    by (simp_all add: demo_fields hypot_zero_right)
  note t' = t[unfolded if_P[OF v]]
  from t' v h have
    "{l_min_vel_theta (velocity_limits ?p 0 0 0 0 (3 / 10) 0 0 1 1 1)
       .. l_max_vel_theta (velocity_limits ?p 0 0 0 0 (3 / 10) 0 0 1 1 1)}
     = {min_vel_th ?p .. max_vel_th ?p} \<inter> {0 - 1 * sim_period ?p .. 0 + 1 * sim_period ?p}"
    "{l_min_vel_x (velocity_limits ?p 0 0 0 0 (3 / 10) 0 0 1 1 1)
       .. l_max_vel_x (velocity_limits ?p 0 0 0 0 (3 / 10) 0 0 1 1 1)}
     = {min_vel_x ?p .. max_vel_x ?p}
       \<inter> {3 / 10 - 1 * sim_period ?p .. 3 / 10 + 1 * sim_period ?p}"
    "l_max_vel_x (velocity_limits ?p 0 0 0 0 (3 / 10) 0 0 1 1 1)
       = max (min (min (max_vel_x ?p)
                     (hypot (final_goal_x ?p - 0) (final_goal_y ?p - 0) / sim_time ?p))
                (3 / 10 + 1 * sim_period ?p)) (min_vel_x ?p)"
    "l_min_vel_x (velocity_limits ?p 0 0 0 0 (3 / 10) 0 0 1 1 1)
       = max (min (min_vel_x ?p) (min (max_vel_x ?p)
                (hypot (final_goal_x ?p - 0) (final_goal_y ?p - 0) / sim_time ?p)))
           (3 / 10 - 1 * sim_period ?p)"
    by blast+
  then show ?thesis
    using d s v unfolding m by simp
qed

end
